theory Spec2Isabelle
  imports Main "HOL-Library.Multiset"
begin

section \<open>ChainWhisper: encryption envelope, session manager and conversation replay\<close>

text \<open>
  A shallow embedding of the JavaScript services of ChainWhisper
  (\<^verbatim>\<open>services/encryption.js\<close>, \<^verbatim>\<open>services/sessionManager.js\<close>,
  \<^verbatim>\<open>services/blockchain.js\<close>, the replay and send commands of the command line)
  and of the session factory contract (\<^verbatim>\<open>contracts/ChatFactory.sol\<close>).

  Conventions. A JavaScript exception is a value of \<open>js_error\<close> on the left of a sum.
  Numbers that come from \<^verbatim>\<open>Number(uint256)\<close> are natural numbers; a difference of two
  of them is taken in \<open>int\<close>. Text is \<open>string\<close>. The console lines are modelled without
  the chalk colouring; a pictograph in them is the bytes of its UTF-8 encoding.
\<close>

subsection \<open>Errors and small helpers\<close>

datatype js_error =
    Error string            \<comment> \<open>\<^verbatim>\<open>new Error(message)\<close>, also what a library call throws\<close>
  | TypeError string
  | ReferenceError string

fun error_message :: "js_error \<Rightarrow> string" where
  "error_message (Error m) = m"
| "error_message (TypeError m) = m"
| "error_message (ReferenceError m) = m"

definition digit_char :: "nat \<Rightarrow> char" where
  "digit_char d = ''0123456789'' ! d"

text \<open>Decimal rendering of a number inside a template literal.\<close>

function show_nat :: "nat \<Rightarrow> string" where
  "show_nat n = (if n < 10 then [digit_char n] else show_nat (n div 10) @ [digit_char (n mod 10)])"
  by pat_completeness auto
termination
  by (relation "measure id") auto

declare show_nat.simps [simp del]

text \<open>\<^verbatim>\<open>String.prototype.includes\<close>: the second text occurs somewhere in the first.\<close>

fun starts_with :: "string \<Rightarrow> string \<Rightarrow> bool" where
  "starts_with s [] = True"
| "starts_with [] (c # p) = False"
| "starts_with (d # s) (c # p) = (d = c \<and> starts_with s p)"

fun js_includes :: "string \<Rightarrow> string \<Rightarrow> bool" where
  "js_includes [] p = (p = [])"
| "js_includes (d # s) p = (starts_with (d # s) p \<or> js_includes s p)"

text \<open>\<^verbatim>\<open>toLowerCase\<close> on the letters A to Z; the addresses compared are ASCII text.\<close>

definition lower_char :: "char \<Rightarrow> char" where
  "lower_char c =
     (case map_of (zip ''ABCDEFGHIJKLMNOPQRSTUVWXYZ'' ''abcdefghijklmnopqrstuvwxyz'') c of
        None \<Rightarrow> c
      | Some l \<Rightarrow> l)"

definition toLowerCase :: "string \<Rightarrow> string" where
  "toLowerCase s = map lower_char s"

text \<open>\<^verbatim>\<open>text.split('\n')[0]\<close>\<close>

definition first_line :: "string \<Rightarrow> string" where
  "first_line s = takeWhile (\<lambda>c. c \<noteq> CHR 0x0A) s"

subsection \<open>Messages of a conversation\<close>

text \<open>
  The object pushed by \<^verbatim>\<open>getConversationMessages\<close> (source \<^verbatim>\<open>'main'\<close>) and by
  \<^verbatim>\<open>getSessionMessagesWithLimit\<close> (source \<^verbatim>\<open>'session'\<close>). Fields that only one of
  the two writes are optional.
\<close>

record message =
  messageId :: string
  from_addr :: string
  to_addr :: "string option"
  cid :: string
  timestamp :: nat
  expiry :: nat
  isMedia :: bool
  messageType :: string
  conversationHash :: "string option"
  source :: string
  sessionAddress :: "string option"
  blockNumber :: "nat option"
  transactionHash :: "string option"

text \<open>What \<^verbatim>\<open>chatContract.getMessage(id)\<close> returns.\<close>

record message_data =
  md_from :: string
  md_to :: string
  md_cid :: string
  md_timestamp :: nat
  md_expiry :: nat
  md_isMedia :: bool
  md_messageType :: string
  md_conversationHash :: string

text \<open>A \<^verbatim>\<open>MessageSent\<close> event of a session contract, as \<^verbatim>\<open>queryFilter\<close> returns it.\<close>

record sent_event =
  ev_from :: string
  ev_cid :: string
  ev_timestamp :: nat
  ev_expiry :: nat
  ev_messageIndex :: nat
  ev_isMedia :: bool
  ev_messageType :: string
  ev_blockNumber :: nat
  ev_transactionHash :: string

definition main_message :: "nat \<Rightarrow> message_data \<Rightarrow> message" where
  "main_message mid d =
     \<lparr> messageId = show_nat mid, from_addr = md_from d, to_addr = Some (md_to d),
       cid = md_cid d, timestamp = md_timestamp d, expiry = md_expiry d,
       isMedia = md_isMedia d, messageType = md_messageType d,
       conversationHash = Some (md_conversationHash d), source = ''main'',
       sessionAddress = None, blockNumber = None, transactionHash = None \<rparr>"

definition session_message :: "string \<Rightarrow> sent_event \<Rightarrow> message" where
  "session_message addr e =
     \<lparr> messageId = show_nat (ev_messageIndex e), from_addr = ev_from e, to_addr = None,
       cid = ev_cid e, timestamp = ev_timestamp e, expiry = ev_expiry e,
       isMedia = ev_isMedia e, messageType = ev_messageType e,
       conversationHash = None, source = ''session'',
       sessionAddress = Some addr, blockNumber = Some (ev_blockNumber e),
       transactionHash = Some (ev_transactionHash e) \<rparr>"

text \<open>
  \<^verbatim>\<open>BlockchainService.getConversationMessages\<close>: the identifiers of the conversation are
  walked in order; a record whose fetch throws is logged and skipped.
\<close>

fun fetch_messages :: "(nat \<Rightarrow> js_error + message_data) \<Rightarrow> nat list \<Rightarrow> message list" where
  "fetch_messages getMessage [] = []"
| "fetch_messages getMessage (mid # mids) =
     (case getMessage mid of
        Inl _ \<Rightarrow> fetch_messages getMessage mids
      | Inr d \<Rightarrow> main_message mid d # fetch_messages getMessage mids)"

definition getConversationMessages ::
  "(js_error + nat list) \<Rightarrow> (nat \<Rightarrow> js_error + message_data) \<Rightarrow> js_error + message list" where
  "getConversationMessages messageIds getMessage =
     (case messageIds of
        Inl e \<Rightarrow> Inl e
      | Inr mids \<Rightarrow> Inr (fetch_messages getMessage mids))"

text \<open>
  \<^verbatim>\<open>xs.sort((a, b) => a.timestamp - b.timestamp)\<close>. \<^verbatim>\<open>Array.prototype.sort\<close> is a
  stable sort, and the comparator is negative exactly when \<open>a\<close> is older than \<open>b\<close>, so
  the call is the stable sort on the key \<open>timestamp\<close>.
\<close>

definition sort_by_timestamp :: "message list \<Rightarrow> message list" where
  "sort_by_timestamp ms = sort_key timestamp ms"

text \<open>
  The merge of \<^verbatim>\<open>handleReplayCommand\<close>:
  \<^verbatim>\<open>const allMessages = [...standardMessages, ...sessionMessages]; allMessages.sort(...)\<close>.
\<close>

definition allMessages :: "message list \<Rightarrow> message list \<Rightarrow> message list" where
  "allMessages standardMessages sessionMessages =
     sort_by_timestamp (standardMessages @ sessionMessages)"

subsection \<open>The libraries behind the encryption service\<close>

text \<open>
  A \<^verbatim>\<open>Uint8Array\<close> or \<^verbatim>\<open>Buffer\<close> is a list of bytes; \<open>char\<close> is the 8-bit type.
\<close>

type_synonym bytes = "char list"

text \<open>A value produced by \<^verbatim>\<open>JSON.parse\<close>. Numbers are kept as integers.\<close>

datatype json =
    JNull
  | JBool bool
  | JNum int
  | JStr string
  | JArr "json list"
  | JObj "(string \<times> json) list"

text \<open>
  The calls into \<^verbatim>\<open>ethers\<close>, node's \<^verbatim>\<open>crypto\<close>, \<^verbatim>\<open>libsodium-wrappers\<close> and
  \<^verbatim>\<open>JSON\<close> that the service makes. They are not code of the repository; the service is
  modelled over any implementation of them.
  \<^item> \<open>wallet_publicKey k\<close>: \<^verbatim>\<open>new ethers.Wallet(k).signingKey.publicKey\<close>;
  \<^item> \<open>ecdh_setPrivateKey a\<close>: \<^verbatim>\<open>ecdh.setPrivateKey(Buffer.from(a, 'hex'))\<close> on a fresh
    \<^verbatim>\<open>crypto.createECDH('secp256k1')\<close>;
  \<^item> \<open>ecdh_computeSecret a p\<close>: \<^verbatim>\<open>ecdh.computeSecret(Buffer.from(p, 'hex'))\<close> on the
    object whose private key is \<open>a\<close>;
  \<^item> \<open>sha256\<close>: \<^verbatim>\<open>crypto.createHash('sha256').update(x).digest()\<close>;
  \<^item> \<open>from_string\<close>, \<open>to_string\<close>, \<open>to_base64\<close>, \<open>from_base64\<close>: the conversions of
    sodium (with the variant \<^verbatim>\<open>ORIGINAL\<close>);
  \<^item> \<open>aead_encrypt m n k\<close> and \<open>aead_decrypt c n k\<close>:
    \<^verbatim>\<open>crypto_aead_xchacha20poly1305_ietf_encrypt(m, null, null, n, k)\<close> and
    \<^verbatim>\<open>crypto_aead_xchacha20poly1305_ietf_decrypt(null, c, null, n, k)\<close>;
  \<^item> \<open>JSON_stringify\<close>, \<open>JSON_parse\<close>.
\<close>

record library =
  wallet_publicKey :: "string \<Rightarrow> js_error + string"
  ecdh_setPrivateKey :: "string \<Rightarrow> js_error + unit"
  ecdh_computeSecret :: "string \<Rightarrow> string \<Rightarrow> js_error + bytes"
  sha256 :: "bytes \<Rightarrow> bytes"
  from_string :: "string \<Rightarrow> bytes"
  to_string :: "bytes \<Rightarrow> js_error + string"
  to_base64 :: "bytes \<Rightarrow> string"
  from_base64 :: "string \<Rightarrow> js_error + bytes"
  aead_encrypt :: "bytes \<Rightarrow> bytes \<Rightarrow> bytes \<Rightarrow> js_error + bytes"
  aead_decrypt :: "bytes \<Rightarrow> bytes \<Rightarrow> bytes \<Rightarrow> js_error + bytes"
  JSON_stringify :: "json \<Rightarrow> string"
  JSON_parse :: "string \<Rightarrow> js_error + json"

text \<open>
  A property read (\<^verbatim>\<open>payload.ciphertext\<close>, \<^verbatim>\<open>payload.nonce\<close>, \<^verbatim>\<open>payload.algorithm\<close>):
  it throws on \<^verbatim>\<open>null\<close>, and gives \<^verbatim>\<open>undefined\<close> (here \<open>None\<close>) on an object without
  the key and on a number, a boolean, a string or an array, none of which has a
  property of one of these three names.
\<close>

fun get_prop :: "json \<Rightarrow> string \<Rightarrow> js_error + json option" where
  "get_prop JNull name = Inl (TypeError (''Cannot read properties of null (reading '' @ name @ '')''))"
| "get_prop (JObj props) name = Inr (map_of props name)"
| "get_prop v name = Inr None"

text \<open>The truth value of \<^verbatim>\<open>!!v\<close>.\<close>

fun truthy :: "json option \<Rightarrow> bool" where
  "truthy None = False"
| "truthy (Some JNull) = False"
| "truthy (Some (JBool b)) = b"
| "truthy (Some (JNum n)) = (n \<noteq> 0)"
| "truthy (Some (JStr s)) = (s \<noteq> [])"
| "truthy (Some (JArr vs)) = True"
| "truthy (Some (JObj props)) = True"

text \<open>\<^verbatim>\<open>sodium.from_base64(v, variant)\<close> accepts text and throws on any other value.\<close>

fun from_base64_value :: "library \<Rightarrow> json option \<Rightarrow> js_error + bytes" where
  "from_base64_value lib (Some (JStr s)) = from_base64 lib s"
| "from_base64_value lib v = Inl (TypeError ''unsupported input type for input'')"

subsection \<open>The encryption service\<close>

text \<open>\<^verbatim>\<open>k.startsWith('0x') ? k.slice(2) : k\<close>\<close>

definition strip0x :: "string \<Rightarrow> string" where
  "strip0x k = (if starts_with k ''0x'' then drop 2 k else k)"

definition getPublicKeyFromPrivate :: "library \<Rightarrow> string \<Rightarrow> js_error + string" where
  "getPublicKeyFromPrivate lib privateKeyHex =
     (case wallet_publicKey lib (''0x'' @ strip0x privateKeyHex) of
        Inl e \<Rightarrow> Inl e
      | Inr publicKey \<Rightarrow> Inr (drop 4 publicKey))"

definition generateSharedSecret :: "library \<Rightarrow> string \<Rightarrow> string \<Rightarrow> js_error + bytes" where
  "generateSharedSecret lib privateKeyHex publicKeyHex =
     (let cleanPrivateKey = strip0x privateKeyHex;
          cleanPublicKey = strip0x publicKeyHex
      in case ecdh_setPrivateKey lib cleanPrivateKey of
           Inl e \<Rightarrow> Inl e
         | Inr _ \<Rightarrow>
             (if length cleanPublicKey = 128 then
                (case ecdh_computeSecret lib cleanPrivateKey (''04'' @ cleanPublicKey) of
                   Inl e \<Rightarrow> Inl e
                 | Inr sharedSecret \<Rightarrow> Inr (sha256 lib sharedSecret))
              else if length cleanPublicKey = 130 \<and> starts_with cleanPublicKey ''04'' then
                (case ecdh_computeSecret lib cleanPrivateKey cleanPublicKey of
                   Inl e \<Rightarrow> Inl e
                 | Inr sharedSecret \<Rightarrow> Inr (sha256 lib sharedSecret))
              else Inl (Error (''Invalid public key format. Length: ''
                                 @ show_nat (length cleanPublicKey)))))"

definition testingKeys :: "(string \<times> string) list" where
  "testingKeys =
     [(''0x4B3462da947df564eA5d7bd23f5515fbEB093d55'',
       ''d02a0bf9cf918bf11ded83e126a3dcb143c85fce4f9d5bf607a90b56633c8aac''),
      (''0xd6ED9d6A26636df02D6A2a51A448cAC55795e016'',
       ''e536d3033baab4a34254cc29c5a7a09c78161f54b21fe673cc15cec91a9496f0'')]"

definition getRecipientPrivateKeyForTesting :: "string \<Rightarrow> js_error + string" where
  "getRecipientPrivateKeyForTesting recipientAddress =
     (case find (\<lambda>(addr, key). toLowerCase addr = toLowerCase recipientAddress) testingKeys of
        None \<Rightarrow> Inl (Error (''Testing private key not found for address: '' @ recipientAddress))
      | Some (addr, key) \<Rightarrow> Inr key)"

text \<open>The object that \<^verbatim>\<open>encryptForRecipient\<close> hands to \<^verbatim>\<open>JSON.stringify\<close>.\<close>

definition envelope :: "string \<Rightarrow> string \<Rightarrow> json" where
  "envelope ciphertext64 nonce64 =
     JObj [(''ciphertext'', JStr ciphertext64),
           (''nonce'', JStr nonce64),
           (''algorithm'', JStr ''XChaCha20-Poly1305''),
           (''keyDerivation'', JStr ''ECDH-secp256k1''),
           (''version'', JStr ''3.0'')]"

text \<open>
  \<^verbatim>\<open>encryptForRecipient(message, senderPrivateKey, recipientAddress)\<close>. The argument
  \<open>nonce\<close> is the answer of \<^verbatim>\<open>randombytes_buf(24)\<close>. Every error is thrown again by the
  handler, so the function returns the error or the text of the envelope.
\<close>

definition encryptForRecipient ::
  "library \<Rightarrow> bytes \<Rightarrow> string \<Rightarrow> string \<Rightarrow> string \<Rightarrow> js_error + string" where
  "encryptForRecipient lib nonce message senderPrivateKey recipientAddress =
     (case getRecipientPrivateKeyForTesting recipientAddress of
        Inl e \<Rightarrow> Inl e
      | Inr recipientPrivateKey \<Rightarrow>
     (case getPublicKeyFromPrivate lib recipientPrivateKey of
        Inl e \<Rightarrow> Inl e
      | Inr recipientPublicKey \<Rightarrow>
     (case generateSharedSecret lib senderPrivateKey recipientPublicKey of
        Inl e \<Rightarrow> Inl e
      | Inr key \<Rightarrow>
     (case aead_encrypt lib (from_string lib message) nonce key of
        Inl e \<Rightarrow> Inl e
      | Inr ciphertext \<Rightarrow>
          Inr (JSON_stringify lib
                 (envelope (to_base64 lib ciphertext) (to_base64 lib nonce)))))))"

definition corrupted_sentinel :: "nat \<Rightarrow> string" where
  "corrupted_sentinel n = ''[Corrupted message - '' @ show_nat n @ '' chars]''"

definition legacy_sentinel :: string where
  "legacy_sentinel = ''[Legacy message format - please resend with current version]''"

definition undecryptable_sentinel :: string where
  "undecryptable_sentinel = ''[Message could not be decrypted]''"

text \<open>
  The inner \<^verbatim>\<open>try\<close> of \<^verbatim>\<open>decryptFromSender\<close>: parse the text and require a truthy
  \<^verbatim>\<open>ciphertext\<close> and a truthy \<^verbatim>\<open>nonce\<close> (the second is read only when the first is
  truthy).
\<close>

definition parse_payload :: "library \<Rightarrow> string \<Rightarrow> js_error + json" where
  "parse_payload lib encryptedData =
     (case JSON_parse lib encryptedData of
        Inl e \<Rightarrow> Inl e
      | Inr encryptionPayload \<Rightarrow>
     (case get_prop encryptionPayload ''ciphertext'' of
        Inl e \<Rightarrow> Inl e
      | Inr c \<Rightarrow>
          if \<not> truthy c then Inl (Error ''Invalid encryption payload'')
          else
     (case get_prop encryptionPayload ''nonce'' of
        Inl e \<Rightarrow> Inl e
      | Inr n \<Rightarrow>
          if \<not> truthy n then Inl (Error ''Invalid encryption payload'')
          else Inr encryptionPayload)))"

text \<open>The statements of the outer \<^verbatim>\<open>try\<close> after the check of the algorithm tag.\<close>

definition open_payload :: "library \<Rightarrow> json \<Rightarrow> string \<Rightarrow> string \<Rightarrow> js_error + string" where
  "open_payload lib encryptionPayload recipientPrivateKey senderAddress =
     (case getRecipientPrivateKeyForTesting senderAddress of
        Inl e \<Rightarrow> Inl e
      | Inr senderPrivateKey \<Rightarrow>
     (case getPublicKeyFromPrivate lib senderPrivateKey of
        Inl e \<Rightarrow> Inl e
      | Inr senderPublicKey \<Rightarrow>
     (case generateSharedSecret lib recipientPrivateKey senderPublicKey of
        Inl e \<Rightarrow> Inl e
      | Inr key \<Rightarrow>
     (case get_prop encryptionPayload ''nonce'' of
        Inl e \<Rightarrow> Inl e
      | Inr nonceValue \<Rightarrow>
     (case from_base64_value lib nonceValue of
        Inl e \<Rightarrow> Inl e
      | Inr nonce \<Rightarrow>
     (case get_prop encryptionPayload ''ciphertext'' of
        Inl e \<Rightarrow> Inl e
      | Inr ciphertextValue \<Rightarrow>
     (case from_base64_value lib ciphertextValue of
        Inl e \<Rightarrow> Inl e
      | Inr ciphertext \<Rightarrow>
     (case aead_decrypt lib ciphertext nonce key of
        Inl e \<Rightarrow> Inl e
      | Inr decryptedBytes \<Rightarrow>
     (case to_string lib decryptedBytes of
        Inl e \<Rightarrow> Inl e
      | Inr decryptedMessage \<Rightarrow>
          if decryptedMessage = [] then Inl (Error ''Decryption resulted in empty message'')
          else Inr decryptedMessage)))))))))"

text \<open>
  \<^verbatim>\<open>decryptFromSender(encryptedData, recipientPrivateKey, senderAddress)\<close>. The handler
  of the inner \<^verbatim>\<open>try\<close> and the handler of the outer one both return a text, so the
  function returns a text on every path.
\<close>

definition decryptFromSender :: "library \<Rightarrow> string \<Rightarrow> string \<Rightarrow> string \<Rightarrow> string" where
  "decryptFromSender lib encryptedData recipientPrivateKey senderAddress =
     (case parse_payload lib encryptedData of
        Inl jsonError \<Rightarrow>
          if length encryptedData < 100 then corrupted_sentinel (length encryptedData)
          else legacy_sentinel
      | Inr encryptionPayload \<Rightarrow>
          (case get_prop encryptionPayload ''algorithm'' of
             Inl e \<Rightarrow> undecryptable_sentinel
           | Inr algorithm \<Rightarrow>
               if algorithm \<noteq> Some (JStr ''XChaCha20-Poly1305'') then legacy_sentinel
               else
                 (case open_payload lib encryptionPayload recipientPrivateKey senderAddress of
                    Inl error \<Rightarrow> undecryptable_sentinel
                  | Inr decryptedMessage \<Rightarrow> decryptedMessage)))"

text \<open>The recipients and senders that the table of testing keys knows.\<close>

definition in_testing_table :: "string \<Rightarrow> bool" where
  "in_testing_table addr =
     (toLowerCase addr \<in> set (map (\<lambda>(a, k). toLowerCase a) testingKeys))"

subsection \<open>What the service expects of its libraries\<close>

definition hex_digit :: "char \<Rightarrow> bool" where
  "hex_digit c = (c \<in> set ''0123456789abcdefABCDEF'')"

text \<open>
  Key agreement. A wallet's public key is the text \<^verbatim>\<open>0x04\<close> followed by 128
  hexadecimal digits. For two private keys that \<^verbatim>\<open>ethers\<close> accepts, node's ECDH object
  accepts them as well, and the secret computed from one private key and the other
  public key does not depend on which side computes it (the Diffie-Hellman property of
  secp256k1, which is the library's and not this repository's).
\<close>

definition key_agreement_laws :: "library \<Rightarrow> bool" where
  "key_agreement_laws lib \<longleftrightarrow>
     (\<forall>k p. wallet_publicKey lib k = Inr p \<longrightarrow>
        length p = 132 \<and> take 4 p = ''0x04'' \<and> list_all hex_digit (drop 4 p))
   \<and> (\<forall>a b pa pb.
        wallet_publicKey lib (''0x'' @ a) = Inr pa \<and> wallet_publicKey lib (''0x'' @ b) = Inr pb
        \<longrightarrow> ecdh_setPrivateKey lib a = Inr ()
            \<and> (\<exists>s. ecdh_computeSecret lib a (drop 2 pb) = Inr s
                   \<and> ecdh_computeSecret lib b (drop 2 pa) = Inr s))"

text \<open>
  Conversions: decoding inverts encoding for UTF-8 text, for base64 and for the JSON
  text of an envelope, and the base64 text of a non-empty buffer is not empty.
\<close>

definition codec_laws :: "library \<Rightarrow> bool" where
  "codec_laws lib \<longleftrightarrow>
     (\<forall>s. to_string lib (from_string lib s) = Inr s)
   \<and> (\<forall>b. from_base64 lib (to_base64 lib b) = Inr b)
   \<and> (\<forall>b. b \<noteq> [] \<longrightarrow> to_base64 lib b \<noteq> [])
   \<and> (\<forall>c n. JSON_parse lib (JSON_stringify lib (envelope c n)) = Inr (envelope c n))"

text \<open>
  The part of these conversions that carries the envelope: base64 and the JSON text.
  It leaves the conversion of the message between text and UTF-8 bytes open, which
  the library performs with a replacement character for what is not well-formed
  Unicode (an unpaired surrogate), so that not every text comes back.
\<close>

definition envelope_codec_laws :: "library \<Rightarrow> bool" where
  "envelope_codec_laws lib \<longleftrightarrow>
     (\<forall>b. from_base64 lib (to_base64 lib b) = Inr b)
   \<and> (\<forall>b. b \<noteq> [] \<longrightarrow> to_base64 lib b \<noteq> [])
   \<and> (\<forall>c n. JSON_parse lib (JSON_stringify lib (envelope c n)) = Inr (envelope c n))"

text \<open>
  Authenticated encryption: a digest has 32 bytes; encryption accepts a nonce of 24
  bytes and a key of 32 bytes; what it returns is not empty and opens, under the same
  nonce and key, to the message.
\<close>

definition aead_laws :: "library \<Rightarrow> bool" where
  "aead_laws lib \<longleftrightarrow>
     (\<forall>x. length (sha256 lib x) = 32)
   \<and> (\<forall>m n k. length n = 24 \<and> length k = 32 \<longrightarrow> (\<exists>c. aead_encrypt lib m n k = Inr c))
   \<and> (\<forall>m n k c. aead_encrypt lib m n k = Inr c \<longrightarrow>
         c \<noteq> [] \<and> aead_decrypt lib c n k = Inr m)"

text \<open>Authentication: a ciphertext does not open under another key.\<close>

definition aead_rejects_other_keys :: "library \<Rightarrow> bool" where
  "aead_rejects_other_keys lib \<longleftrightarrow>
     (\<forall>m n k k' c. aead_encrypt lib m n k = Inr c \<and> k' \<noteq> k \<longrightarrow>
        (\<exists>e. aead_decrypt lib c n k' = Inl e))"

text \<open>The encodings of a public key, given its 128 digits, that the service accepts.\<close>

definition encodings :: "string \<Rightarrow> string set" where
  "encodings p = {p, ''04'' @ p, ''0x'' @ p, ''0x04'' @ p}"

subsection \<open>A small implementation of the libraries\<close>

text \<open>
  An implementation of the interface that satisfies the four laws, small enough to
  run the service on concrete inputs. It is no cryptography: a public key repeats the
  private key, the shared secret is the two private keys in lexicographic order, a
  ciphertext is key, nonce and message in a row, base64 and UTF-8 are the identity, and
  the text of an object lists its keys and text values, each preceded by as many dots
  as it has characters and a colon.
\<close>

fun str_le :: "string \<Rightarrow> string \<Rightarrow> bool" where
  "str_le [] t = True"
| "str_le (c # s) [] = False"
| "str_le (c # s) (d # t) = ((of_char c :: nat) < of_char d \<or> (c = d \<and> str_le s t))"

fun enc_strs :: "string list \<Rightarrow> string" where
  "enc_strs [] = []"
| "enc_strs (s # ss) = replicate (length s) (CHR ''.'') @ CHR '':'' # s @ enc_strs ss"

function dec_strs :: "nat \<Rightarrow> string \<Rightarrow> string list option" where
  "dec_strs n [] = (if n = 0 then Some [] else None)"
| "dec_strs n (c # cs) =
     (if c = CHR ''.'' then dec_strs (Suc n) cs
      else if c = CHR '':'' \<and> n \<le> length cs
      then map_option ((#) (take n cs)) (dec_strs 0 (drop n cs))
      else None)"
  by pat_completeness auto
termination
  by (relation "measure (\<lambda>(n, s). length s)") auto

fun pairs :: "'a list \<Rightarrow> ('a \<times> 'a) list option" where
  "pairs [] = Some []"
| "pairs [x] = None"
| "pairs (x # y # r) = map_option ((#) (x, y)) (pairs r)"

definition model_stringify :: "json \<Rightarrow> string" where
  "model_stringify v =
     (case v of
        JObj props \<Rightarrow>
          enc_strs (concat (map (\<lambda>(k, x). [k, (case x of JStr s \<Rightarrow> s | _ \<Rightarrow> [])]) props))
      | _ \<Rightarrow> ''null'')"

definition model_parse :: "string \<Rightarrow> js_error + json" where
  "model_parse t =
     (case dec_strs 0 t of
        None \<Rightarrow> Inl (Error ''Unexpected token'')
      | Some ss \<Rightarrow>
          (case pairs ss of
             None \<Rightarrow> Inl (Error ''Unexpected end of JSON input'')
           | Some ps \<Rightarrow> Inr (JObj (map (\<lambda>(k, s). (k, JStr s)) ps))))"

definition model_library :: library where
  "model_library =
     \<lparr> wallet_publicKey = (\<lambda>k.
         if length k = 66 \<and> take 2 k = ''0x'' \<and> list_all hex_digit (drop 2 k)
         then Inr (''0x04'' @ drop 2 k @ drop 2 k)
         else Inl (Error ''invalid private key'')),
       ecdh_setPrivateKey = (\<lambda>a.
         if length a = 64 then Inr ()
         else Inl (Error ''Private key is not valid for specified curve.'')),
       ecdh_computeSecret = (\<lambda>a p.
         if length a = 64 \<and> length p = 130 \<and> take 2 p = ''04''
         then Inr (if str_le a (take 64 (drop 2 p)) then a @ take 64 (drop 2 p)
                   else take 64 (drop 2 p) @ a)
         else Inl (Error ''Public key is not valid for specified curve'')),
       sha256 = (\<lambda>x. take 32 (x @ replicate 32 (CHR ''0''))),
       from_string = (\<lambda>s. s),
       to_string = (\<lambda>b. Inr b),
       to_base64 = (\<lambda>b. b),
       from_base64 = (\<lambda>s. Inr s),
       aead_encrypt = (\<lambda>m n k.
         if length n = 24 \<and> length k = 32 then Inr (k @ n @ m)
         else Inl (Error ''invalid nonce or key length'')),
       aead_decrypt = (\<lambda>c n k.
         if length n = 24 \<and> length k = 32 \<and> take 32 c = k \<and> take 24 (drop 32 c) = n
         then Inr (drop 56 c)
         else Inl (Error ''ciphertext cannot be decrypted using that key'')),
       JSON_stringify = model_stringify,
       JSON_parse = model_parse \<rparr>"

text \<open>
  The same implementation with a conversion to bytes that, like the encoder of the
  real library on an unpaired surrogate, replaces one code unit (here the byte
  \<open>0xED\<close>) by a replacement character (here a question mark).
\<close>

definition lossy_library :: library where
  "lossy_library =
     model_library
       \<lparr> from_string := (\<lambda>s. map (\<lambda>c. if c = CHR 0xED then CHR ''?'' else c) s) \<rparr>"

definition ex_ill_formed :: string where
  "ex_ill_formed = [CHR ''a'', CHR 0xED, CHR ''b'']"

text \<open>
  Two parties A and B with the addresses and keys of the testing table (A writes its
  address in lower case and its key with the prefix \<^verbatim>\<open>0x\<close>, as a wallet does), a
  party outside the table with a key of its own, and a nonce.
\<close>

definition ex_addrA :: string where
  "ex_addrA = ''0x4b3462da947df564ea5d7bd23f5515fbeb093d55''"

definition ex_addrB :: string where
  "ex_addrB = ''0xd6ED9d6A26636df02D6A2a51A448cAC55795e016''"

definition ex_keyA :: string where
  "ex_keyA = ''0xd02a0bf9cf918bf11ded83e126a3dcb143c85fce4f9d5bf607a90b56633c8aac''"

definition ex_keyB :: string where
  "ex_keyB = ''e536d3033baab4a34254cc29c5a7a09c78161f54b21fe673cc15cec91a9496f0''"

definition ex_pubA :: string where
  "ex_pubA = drop 2 ex_keyA @ drop 2 ex_keyA"

definition ex_pubB :: string where
  "ex_pubB = ex_keyB @ ex_keyB"

definition ex_stranger :: string where
  "ex_stranger = ''0x00000000000000000000000000000000000000aa''"

definition ex_strangerKey :: string where
  "ex_strangerKey = ''00000000000000000000000000000000000000000000000000000000000000aa''"

definition ex_nonce :: bytes where
  "ex_nonce = ''0123456789abcdefghijklmn''"

text \<open>The key that A and B share in the small implementation, and envelopes from A to B.\<close>

definition ex_sharedKey :: bytes where
  "ex_sharedKey = ''d02a0bf9cf918bf11ded83e126a3dcb1''"

definition ex_envelope :: "string \<Rightarrow> string" where
  "ex_envelope m =
     JSON_stringify model_library (envelope (ex_sharedKey @ ex_nonce @ m) ex_nonce)"

definition ex_stranger_envelope :: string where
  "ex_stranger_envelope =
     JSON_stringify model_library
       (envelope (replicate 32 (CHR ''0'') @ ex_nonce @ ''hello'') ex_nonce)"


subsection \<open>The send command\<close>

text \<open>
  \<^verbatim>\<open>sendCommand(options, blockchainService)\<close> of \<^verbatim>\<open>commands/send.js\<close>. The wallet
  connection, the upload of the envelope and the two ledger transactions are the
  collaborators of the command; the model records which of them were called, in order.
  An option that is absent is \<open>None\<close>.
\<close>

datatype service_call =
    CallConnect
  | CallUpload string
  | CallSendSessionMessage string string nat
  | CallSendMessage string string bool nat

record send_services =
  connect :: "js_error + unit"
  privateKey :: string
  uploadEncryptedContent :: "string \<Rightarrow> js_error + string"
  sendSessionMessage :: "string \<Rightarrow> string \<Rightarrow> nat \<Rightarrow> js_error + string \<times> string"
  sendMessage :: "string \<Rightarrow> string \<Rightarrow> bool \<Rightarrow> nat \<Rightarrow> js_error + string \<times> string"

record send_result =
  success :: bool
  result_transactionHash :: string
  result_messageId :: string
  recipient :: string
  mode :: string

text \<open>\<^verbatim>\<open>!text\<close> for an option that is absent or a text.\<close>

definition falsy_text :: "string option \<Rightarrow> bool" where
  "falsy_text t = (t = None \<or> t = Some [])"

definition sendCommand ::
  "library \<Rightarrow> bytes \<Rightarrow> send_services \<Rightarrow> string option \<Rightarrow> string option \<Rightarrow> nat \<Rightarrow> bool
     \<Rightarrow> (js_error + send_result) \<times> service_call list" where
  "sendCommand lib nonce svc to_opt message_opt expiry_opt session =
     (case (to_opt, message_opt) of
        (Some to_text, Some message) \<Rightarrow>
          if falsy_text to_opt \<or> falsy_text message_opt
          then (Inl (Error ''Recipient address and message are required''), [])
          else
            (case connect svc of
               Inl e \<Rightarrow> (Inl e, [CallConnect])
             | Inr _ \<Rightarrow>
            (case encryptForRecipient lib nonce message (privateKey svc) to_text of
               Inl e \<Rightarrow> (Inl e, [CallConnect])
             | Inr encryptedMessage \<Rightarrow>
            (case uploadEncryptedContent svc encryptedMessage of
               Inl e \<Rightarrow> (Inl e, [CallConnect, CallUpload encryptedMessage])
             | Inr cid_text \<Rightarrow>
                 if session then
                   (case sendSessionMessage svc to_text cid_text expiry_opt of
                      Inl e \<Rightarrow>
                        (Inl e, [CallConnect, CallUpload encryptedMessage,
                                 CallSendSessionMessage to_text cid_text expiry_opt])
                    | Inr (txHash, mid) \<Rightarrow>
                        (Inr \<lparr> success = True, result_transactionHash = txHash,
                               result_messageId = mid, recipient = to_text,
                               mode = ''session'' \<rparr>,
                         [CallConnect, CallUpload encryptedMessage,
                          CallSendSessionMessage to_text cid_text expiry_opt]))
                 else
                   (case sendMessage svc to_text cid_text False expiry_opt of
                      Inl e \<Rightarrow>
                        (Inl e, [CallConnect, CallUpload encryptedMessage,
                                 CallSendMessage to_text cid_text False expiry_opt])
                    | Inr (txHash, mid) \<Rightarrow>
                        (Inr \<lparr> success = True, result_transactionHash = txHash,
                               result_messageId = mid, recipient = to_text,
                               mode = ''standard'' \<rparr>,
                         [CallConnect, CallUpload encryptedMessage,
                          CallSendMessage to_text cid_text False expiry_opt])))))
      | _ \<Rightarrow> (Inl (Error ''Recipient address and message are required''), []))"

text \<open>
  The dispatch of \<^verbatim>\<open>main\<close> in the command line: the send handler runs only when
  \<^verbatim>\<open>argv.to && argv.message\<close> is truthy.
\<close>

record cli_argv =
  argv_to :: "string option"
  argv_message :: "string option"
  argv_replay :: "string option"
  argv_list_wallets :: bool
  argv_delete_wallet :: "string option"

datatype handler =
    HandleSend
  | HandleReplay
  | HandleListWallets
  | HandleDeleteWallet
  | HandleNothing

definition main_dispatch :: "cli_argv \<Rightarrow> handler" where
  "main_dispatch argv =
     (if \<not> falsy_text (argv_to argv) \<and> \<not> falsy_text (argv_message argv) then HandleSend
      else if \<not> falsy_text (argv_replay argv) then HandleReplay
      else if argv_list_wallets argv then HandleListWallets
      else if \<not> falsy_text (argv_delete_wallet argv) then HandleDeleteWallet
      else HandleNothing)"

text \<open>Services that accept everything, and a command line that asks to send.\<close>

definition ex_services :: send_services where
  "ex_services =
     \<lparr> connect = Inr (), privateKey = ex_keyA,
       uploadEncryptedContent = (\<lambda>t. Inr ''QmChainWhisper1''),
       sendSessionMessage = (\<lambda>t c e. Inr (''0xt1'', ''1'')),
       sendMessage = (\<lambda>t c b e. Inr (''0xt2'', ''2'')) \<rparr>"

definition ex_argv :: cli_argv where
  "ex_argv =
     \<lparr> argv_to = Some ex_addrB, argv_message = Some [], argv_replay = None,
       argv_list_wallets = False, argv_delete_wallet = None \<rparr>"

subsection \<open>The session contracts on the ledger\<close>

text \<open>
  \<^verbatim>\<open>contracts/ChatFactory.sol\<close>. An \<^verbatim>\<open>address\<close> and a \<^verbatim>\<open>bytes32\<close> are numbers, 0
  being \<^verbatim>\<open>address(0)\<close> and \<^verbatim>\<open>bytes32(0)\<close>. A \<^verbatim>\<open>uint256\<close> is a natural number: the
  compiler (0.8) checks the arithmetic, an underflow is the \<open>Panic\<close> below, and the
  counters and timestamps stay far from \<open>2 ^ 256\<close>. Events are not modelled.
\<close>

type_synonym address = nat

type_synonym bytes32 = nat

datatype revert =
    Revert string     \<comment> \<open>a failed \<^verbatim>\<open>require\<close> or \<^verbatim>\<open>revert\<close> with its reason\<close>
  | Panic             \<comment> \<open>checked arithmetic\<close>
  | CallFailed        \<comment> \<open>a call to an address without code, a failed \<^verbatim>\<open>CREATE2\<close>\<close>

record ChatSession =
  participant1 :: address
  participant2 :: address
  messageCount :: nat
  sessionActive :: bool
  createdAt :: nat
  lastActivity :: nat
  sessionExpiry :: nat

definition SESSION_DURATION :: nat where
  "SESSION_DURATION = 3600"

definition MAX_SESSIONS_PER_USER :: nat where
  "MAX_SESSIONS_PER_USER = 100"

text \<open>The constructor of \<^verbatim>\<open>ChatSession\<close>, run at the block time \<open>now\<close>.\<close>

definition ChatSession_constructor :: "address \<Rightarrow> address \<Rightarrow> nat \<Rightarrow> revert + ChatSession" where
  "ChatSession_constructor p1 p2 now =
     (if \<not> (p1 \<noteq> 0 \<and> p2 \<noteq> 0) then Inl (Revert ''Invalid participants'')
      else if \<not> p1 \<noteq> p2 then Inl (Revert ''Participants must differ'')
      else Inr \<lparr> participant1 = p1, participant2 = p2, messageCount = 0,
                 sessionActive = True, createdAt = now, lastActivity = now,
                 sessionExpiry = now + SESSION_DURATION \<rparr>)"

definition isSessionExpired :: "ChatSession \<Rightarrow> nat \<Rightarrow> bool" where
  "isSessionExpired s now = (now \<ge> sessionExpiry s)"

text \<open>
  \<^verbatim>\<open>ChatSession.sendMessage\<close> with its modifiers \<^verbatim>\<open>onlyParticipants\<close> and
  \<^verbatim>\<open>sessionMustBeActive\<close>.
\<close>

definition ChatSession_sendMessage ::
  "ChatSession \<Rightarrow> address \<Rightarrow> nat \<Rightarrow> string \<Rightarrow> nat \<Rightarrow> bool \<Rightarrow> string \<Rightarrow> revert + ChatSession" where
  "ChatSession_sendMessage s sender now cid_text expiry_time media type_text =
     (if \<not> (sender = participant1 s \<or> sender = participant2 s)
      then Inl (Revert ''Unauthorized: not a participant'')
      else if \<not> sessionActive s then Inl (Revert ''Session closed'')
      else if \<not> now < sessionExpiry s then Inl (Revert ''Session expired'')
      else if \<not> length cid_text > 0 then Inl (Revert ''CID required'')
      else if \<not> length type_text > 0 then Inl (Revert ''Message type required'')
      else if expiry_time > 0 \<and> \<not> expiry_time > now then Inl (Revert ''Invalid expiry'')
      else Inr (s \<lparr> lastActivity := now, messageCount := messageCount s + 1 \<rparr>))"

definition closeSession :: "ChatSession \<Rightarrow> address \<Rightarrow> revert + ChatSession" where
  "closeSession s sender =
     (if \<not> (sender = participant1 s \<or> sender = participant2 s)
      then Inl (Revert ''Unauthorized: not a participant'')
      else Inr (s \<lparr> sessionActive := False \<rparr>))"

text \<open>
  The storage of \<^verbatim>\<open>ChatFactory\<close>, together with the session contracts deployed so far
  (\<open>deployed\<close>, by address).
\<close>

record ledger =
  sessionContracts :: "bytes32 \<Rightarrow> address"
  userSessions :: "address \<Rightarrow> bytes32 list"
  participantPairToSession :: "address \<Rightarrow> address \<Rightarrow> bytes32"
  totalSessions :: nat
  activeSessions :: nat
  deployed :: "address \<Rightarrow> ChatSession option"

text \<open>
  What a transaction takes from the chain: the block's time and \<^verbatim>\<open>prevrandao\<close>, the
  hash \<^verbatim>\<open>keccak256(abi.encodePacked(sender, participant, timestamp, prevrandao, total))\<close>
  and the address that \<^verbatim>\<open>CREATE2\<close> gives to a session with a salt and two
  constructor arguments.
\<close>

record chain =
  block_timestamp :: nat
  block_prevrandao :: nat
  session_hash :: "address \<Rightarrow> address \<Rightarrow> nat \<Rightarrow> nat \<Rightarrow> nat \<Rightarrow> bytes32"
  create2_address :: "bytes32 \<Rightarrow> address \<Rightarrow> address \<Rightarrow> address"

text \<open>
  The part of \<^verbatim>\<open>createChatSession\<close> that looks at the pair's existing session. It
  gives the value of \<^verbatim>\<open>activeSessions\<close> after it.
\<close>

definition check_existing :: "chain \<Rightarrow> ledger \<Rightarrow> address \<Rightarrow> address \<Rightarrow> revert + nat" where
  "check_existing ch L sender participant =
     (let existingSessionId = participantPairToSession L sender participant
      in if existingSessionId \<noteq> 0 then
           (let existingContract = sessionContracts L existingSessionId
            in if existingContract \<noteq> 0 then
                 (case deployed L existingContract of
                    None \<Rightarrow> Inl CallFailed
                  | Some existing \<Rightarrow>
                      (let isExpired = isSessionExpired existing (block_timestamp ch);
                           isActive = sessionActive existing
                       in if isActive \<and> \<not> isExpired then Inl (Revert ''Active session exists'')
                          else if isExpired \<and> isActive then
                            (if activeSessions L = 0 then Inl Panic
                             else Inr (activeSessions L - 1))
                          else Inr (activeSessions L)))
               else Inr (activeSessions L))
         else Inr (activeSessions L))"

text \<open>\<^verbatim>\<open>ChatFactory.createChatSession(participant)\<close> called by \<open>sender\<close>.\<close>

definition createChatSession ::
  "chain \<Rightarrow> ledger \<Rightarrow> address \<Rightarrow> address \<Rightarrow> revert + ledger \<times> address \<times> bytes32" where
  "createChatSession ch L sender participant =
     (if \<not> participant \<noteq> 0 then Inl (Revert ''Invalid participant'')
      else if \<not> participant \<noteq> sender then Inl (Revert ''Cannot session with yourself'')
      else if \<not> length (userSessions L sender) < MAX_SESSIONS_PER_USER
      then Inl (Revert ''Maximum sessions reached'')
      else
        (let sessionId = session_hash ch sender participant (block_timestamp ch)
                           (block_prevrandao ch) (totalSessions L)
         in if \<not> sessionContracts L sessionId = 0 then Inl (Revert ''Session collision'')
            else
              (case check_existing ch L sender participant of
                 Inl r \<Rightarrow> Inl r
               | Inr active \<Rightarrow>
                   (let sessionContract = create2_address ch sessionId sender participant
                    in case deployed L sessionContract of
                         Some occupied \<Rightarrow> Inl CallFailed
                       | None \<Rightarrow>
                           (case ChatSession_constructor sender participant (block_timestamp ch) of
                              Inl r \<Rightarrow> Inl r
                            | Inr newSession \<Rightarrow>
                                Inr (L \<lparr> sessionContracts :=
                                            (sessionContracts L)(sessionId := sessionContract),
                                          userSessions :=
                                            (userSessions L)
                                              (sender := userSessions L sender @ [sessionId],
                                               participant :=
                                                 userSessions L participant @ [sessionId]),
                                          participantPairToSession :=
                                            (participantPairToSession L)
                                              (sender :=
                                                 (participantPairToSession L sender)
                                                   (participant := sessionId),
                                               participant :=
                                                 (participantPairToSession L participant)
                                                   (sender := sessionId)),
                                          totalSessions := totalSessions L + 1,
                                          activeSessions := active + 1,
                                          deployed :=
                                            (deployed L)(sessionContract \<mapsto> newSession) \<rparr>,
                                     sessionContract, sessionId))))))"

text \<open>\<^verbatim>\<open>ChatFactory.getSessionBetween(user1, user2)\<close>, a view.\<close>

definition getSessionBetween ::
  "chain \<Rightarrow> ledger \<Rightarrow> address \<Rightarrow> address \<Rightarrow> revert + bytes32 \<times> address \<times> bool" where
  "getSessionBetween ch L user1 user2 =
     (let sessionId = participantPairToSession L user1 user2;
          contractAddr = sessionContracts L sessionId
      in if contractAddr \<noteq> 0 then
           (case deployed L contractAddr of
              None \<Rightarrow> Inl CallFailed
            | Some session \<Rightarrow>
                Inr (sessionId, contractAddr,
                     sessionActive session
                       \<and> \<not> isSessionExpired session (block_timestamp ch)))
         else Inr (sessionId, contractAddr, False))"

subsection \<open>The session manager\<close>

text \<open>
  \<^verbatim>\<open>services/sessionManager.js\<close>. The manager holds the wallet's address and the map
  \<^verbatim>\<open>activeSessions\<close> from peers to what it last learnt about their session. A peer is
  an address; writing it in lower case does not change it. The transaction hash and
  the gas figures of a creation are left out of the results.
\<close>

record cache_entry =
  entry_contractAddress :: address
  entry_participant1 :: address
  entry_participant2 :: address
  entry_created :: bool

record session_info =
  contractAddress :: address
  existed :: bool

type_synonym manager_state = "ledger \<times> (address \<Rightarrow> cache_entry option)"

definition ONE_HOUR :: int where
  "ONE_HOUR = 60 * 60"

text \<open>How a reverted call or transaction reaches the JavaScript caller.\<close>

fun call_error :: "revert \<Rightarrow> js_error" where
  "call_error (Revert reason) = Error (''execution reverted: '' @ reason)"
| "call_error Panic = Error ''execution reverted: Panic''"
| "call_error CallFailed = Error ''call failed''"

text \<open>
  \<^verbatim>\<open>createSession(participant)\<close>: the gas estimate runs the call, the transaction runs it
  again on the same state, then the pair is read back.
\<close>

definition createSession ::
  "chain \<Rightarrow> address \<Rightarrow> address \<Rightarrow> manager_state \<Rightarrow> js_error + session_info \<times> manager_state" where
  "createSession ch wallet participant st =
     (case createChatSession ch (fst st) wallet participant of
        Inl r \<Rightarrow> Inl (call_error r)
      | Inr (L', sessionContract, sessionId) \<Rightarrow>
          (case getSessionBetween ch L' wallet participant of
             Inl r \<Rightarrow> Inl (call_error r)
           | Inr (sid, contractAddr, isActive) \<Rightarrow>
               if contractAddr = 0 then Inl (Error ''Session contract not found after creation'')
               else Inr (\<lparr> contractAddress = contractAddr, existed = False \<rparr>,
                         (L', (snd st)(participant \<mapsto>
                                \<lparr> entry_contractAddress = contractAddr,
                                  entry_participant1 = wallet,
                                  entry_participant2 = participant,
                                  entry_created = True \<rparr>)))))"

text \<open>
  The inner \<^verbatim>\<open>try\<close> of \<^verbatim>\<open>getOrCreateSession\<close>: it reads \<^verbatim>\<open>createdAt()\<close> of the
  existing contract and compares the age, by the local clock \<open>now\<close>, with one hour.
  \<open>Inr (Some r)\<close> is the \<^verbatim>\<open>return await this.createSession(...)\<close> inside the block,
  \<open>Inr None\<close> is falling out of the block, and \<open>Inl\<close> is anything thrown inside it,
  the creation included.
\<close>

definition check_session_age ::
  "chain \<Rightarrow> nat \<Rightarrow> address \<Rightarrow> address \<Rightarrow> address \<Rightarrow> manager_state
     \<Rightarrow> js_error + (session_info \<times> manager_state) option" where
  "check_session_age ch now wallet participant contractAddr st =
     (case deployed (fst st) contractAddr of
        None \<Rightarrow> Inl (Error ''could not decode result data'')
      | Some session \<Rightarrow>
          if int now - int (createdAt session) > ONE_HOUR then
            (case createSession ch wallet participant st of
               Inl e \<Rightarrow> Inl e
             | Inr r \<Rightarrow> Inr (Some r))
          else Inr None)"

text \<open>
  \<^verbatim>\<open>getOrCreateSession(participant)\<close>. The handler of the inner \<^verbatim>\<open>try\<close> logs and goes
  on to the statements after it, which record and return the existing session.
\<close>

definition getOrCreateSession ::
  "chain \<Rightarrow> nat \<Rightarrow> address \<Rightarrow> address \<Rightarrow> manager_state
     \<Rightarrow> js_error + session_info \<times> manager_state" where
  "getOrCreateSession ch now wallet participant st =
     (case getSessionBetween ch (fst st) wallet participant of
        Inl r \<Rightarrow> Inl (call_error r)
      | Inr (sessionId, contractAddr, isActive) \<Rightarrow>
          if contractAddr \<noteq> 0 then
            (case check_session_age ch now wallet participant contractAddr st of
               Inr (Some r) \<Rightarrow> Inr r
             | _ \<Rightarrow>
                 Inr (\<lparr> contractAddress = contractAddr, existed = True \<rparr>,
                      (fst st, (snd st)(participant \<mapsto>
                                 \<lparr> entry_contractAddress = contractAddr,
                                   entry_participant1 = wallet,
                                   entry_participant2 = participant,
                                   entry_created = False \<rparr>))))
          else createSession ch wallet participant st)"

text \<open>What the caller of \<^verbatim>\<open>getOrCreateSession\<close> receives.\<close>

definition returned :: "js_error + session_info \<times> manager_state \<Rightarrow> js_error + session_info" where
  "returned r = (case r of Inl e \<Rightarrow> Inl e | Inr (info, st) \<Rightarrow> Inr info)"

text \<open>
  A chain for the examples: the block time is a parameter, the hash of the first
  session is 1, of the second 2 and so on, and a session with the salt \<open>n\<close> is deployed
  at the address \<open>1000 + n\<close>. The parties are the addresses 1 and 2. \<open>ex_ledger1\<close> is
  the ledger after party 1 has created a session with party 2 at time 1000,
  \<open>ex_closed_ledger\<close> the same after party 2 has closed that session, and
  \<open>ex_full_ledger\<close> a ledger on which party 1 has created, at time 1000, one session
  with each of the parties 2 to 101.
\<close>

definition ex_chain :: "nat \<Rightarrow> chain" where
  "ex_chain t =
     \<lparr> block_timestamp = t, block_prevrandao = 7,
       session_hash = (\<lambda>a b ts r n. n + 1),
       create2_address = (\<lambda>salt a b. 1000 + salt) \<rparr>"

definition ex_empty_ledger :: ledger where
  "ex_empty_ledger =
     \<lparr> sessionContracts = (\<lambda>i. 0), userSessions = (\<lambda>u. []),
       participantPairToSession = (\<lambda>a b. 0), totalSessions = 0, activeSessions = 0,
       deployed = (\<lambda>a. None) \<rparr>"

definition ex_session1 :: ChatSession where
  "ex_session1 =
     \<lparr> participant1 = 1, participant2 = 2, messageCount = 0, sessionActive = True,
       createdAt = 1000, lastActivity = 1000, sessionExpiry = 4600 \<rparr>"

definition ex_ledger1 :: ledger where
  "ex_ledger1 =
     \<lparr> sessionContracts = (\<lambda>i. 0)(1 := 1001),
       userSessions = (\<lambda>u. [])(1 := [1], 2 := [1]),
       participantPairToSession = (\<lambda>a b. 0)(1 := (\<lambda>b. 0)(2 := 1), 2 := (\<lambda>b. 0)(1 := 1)),
       totalSessions = 1, activeSessions = 1,
       deployed = (\<lambda>a. None)(1001 \<mapsto> ex_session1) \<rparr>"

definition ex_closed_ledger :: ledger where
  "ex_closed_ledger =
     ex_ledger1 \<lparr> deployed := (deployed ex_ledger1)
                     (1001 \<mapsto> ex_session1 \<lparr> sessionActive := False \<rparr>) \<rparr>"

definition ex_entry :: "address \<Rightarrow> bool \<Rightarrow> cache_entry" where
  "ex_entry addr created =
     \<lparr> entry_contractAddress = addr, entry_participant1 = 1, entry_participant2 = 2,
       entry_created = created \<rparr>"

definition ex_full_ledger :: ledger where
  "ex_full_ledger =
     \<lparr> sessionContracts = (\<lambda>i. if 1 \<le> i \<and> i \<le> 100 then 1000 + i else 0),
       userSessions = (\<lambda>u. if u = 1 then [1..<101]
                            else if 2 \<le> u \<and> u \<le> 101 then [u - 1] else []),
       participantPairToSession =
         (\<lambda>a b. if a = 1 \<and> 2 \<le> b \<and> b \<le> 101 then b - 1
                else if b = 1 \<and> 2 \<le> a \<and> a \<le> 101 then a - 1 else 0),
       totalSessions = 100, activeSessions = 100,
       deployed = (\<lambda>a. if 1001 \<le> a \<and> a \<le> 1100
                         then Some (ex_session1 \<lparr> participant2 := a - 999 \<rparr>) else None) \<rparr>"

subsection \<open>Scanning the events of a session\<close>

text \<open>
  \<^verbatim>\<open>sessionContract.queryFilter(filter, from, to)\<close> is the ledger client: it returns the
  events of a block range or throws (for instance because the range is too large).
\<close>

type_synonym query_filter = "int \<Rightarrow> int \<Rightarrow> js_error + sent_event list"

definition maxBlocksToScan :: int where
  "maxBlocksToScan = 10000"

definition chunkSize :: int where
  "chunkSize = 500"

text \<open>
  The identifier \<^verbatim>\<open>filter\<close> as the retry loop reads it. It is declared with
  \<^verbatim>\<open>const\<close> inside the block of the \<^verbatim>\<open>try\<close> (line 204), so the binding ends with
  that block; the retry sits in the \<^verbatim>\<open>catch\<close> block (line 233), where neither the
  function, nor the module, nor the global object binds the name. Evaluating the
  argument list of the retry query therefore throws a \<^verbatim>\<open>ReferenceError\<close> before
  \<^verbatim>\<open>queryFilter\<close> is called.
\<close>

definition filter_in_catch_block :: "js_error + unit" where
  "filter_in_catch_block = Inl (ReferenceError ''filter is not defined'')"

definition small_query :: "query_filter \<Rightarrow> int \<Rightarrow> int \<Rightarrow> js_error + sent_event list" where
  "small_query queryFilter smallBlock smallToBlock =
     (case filter_in_catch_block of
        Inl e \<Rightarrow> Inl e
      | Inr _ \<Rightarrow> queryFilter smallBlock smallToBlock)"

text \<open>
  The inner loop \<^verbatim>\<open>for (smallBlock = block; smallBlock <= toBlock; smallBlock += 100)\<close>:
  the events of a sub-range are pushed, a sub-range whose body throws is skipped.
\<close>

function small_chunks ::
  "query_filter \<Rightarrow> string \<Rightarrow> int \<Rightarrow> int \<Rightarrow> message list \<Rightarrow> message list" where
  "small_chunks queryFilter addr smallBlock toBlock messages =
     (if smallBlock \<le> toBlock then
        (case small_query queryFilter smallBlock (min (smallBlock + 99) toBlock) of
           Inl smallError \<Rightarrow> small_chunks queryFilter addr (smallBlock + 100) toBlock messages
         | Inr smallEvents \<Rightarrow>
             small_chunks queryFilter addr (smallBlock + 100) toBlock
               (messages @ map (session_message addr) smallEvents))
      else messages)"
  by pat_completeness auto
termination
  by (relation "measure (\<lambda>(q, a, smallBlock, toBlock, ms). nat (toBlock + 1 - smallBlock))") auto

declare small_chunks.simps [simp del]

text \<open>
  The outer loop \<^verbatim>\<open>for (block = safeStartBlock; block <= currentBlock; block += chunkSize)\<close>.
\<close>

function scan_chunks ::
  "query_filter \<Rightarrow> string \<Rightarrow> int \<Rightarrow> int \<Rightarrow> message list \<Rightarrow> message list" where
  "scan_chunks queryFilter addr block currentBlock messages =
     (if block \<le> currentBlock then
        (case queryFilter block (min (block + chunkSize - 1) currentBlock) of
           Inr events \<Rightarrow>
             scan_chunks queryFilter addr (block + chunkSize) currentBlock
               (messages @ map (session_message addr) events)
         | Inl rangeError \<Rightarrow>
             scan_chunks queryFilter addr (block + chunkSize) currentBlock
               (if js_includes (error_message rangeError) ''too large''
                   \<or> js_includes (error_message rangeError) ''range''
                then small_chunks queryFilter addr block
                       (min (block + chunkSize - 1) currentBlock) messages
                else messages))
      else messages)"
  by pat_completeness auto
termination
  by (relation "measure (\<lambda>(q, a, block, currentBlock, ms). nat (currentBlock + 1 - block))")
     (auto simp: chunkSize_def)

declare scan_chunks.simps [simp del]

text \<open>
  \<^verbatim>\<open>SessionManager.getSessionMessagesWithLimit(sessionAddress, fromBlock)\<close>. The first
  argument of the model is the answer of \<^verbatim>\<open>provider.getBlockNumber()\<close>; when that call
  throws, the outer handler returns the empty list.
\<close>

definition getSessionMessagesWithLimit ::
  "query_filter \<Rightarrow> (js_error + int) \<Rightarrow> string \<Rightarrow> int \<Rightarrow> message list" where
  "getSessionMessagesWithLimit queryFilter getBlockNumber addr fromBlock =
     (case getBlockNumber of
        Inl e \<Rightarrow> []
      | Inr currentBlock \<Rightarrow>
          sort_by_timestamp
            (scan_chunks queryFilter addr (max (currentBlock - maxBlocksToScan) fromBlock)
               currentBlock []))"

subsection \<open>Replaying a conversation\<close>

text \<open>The pictographs of the console lines, as the bytes of their UTF-8 encoding.\<close>

definition icon_clock :: string where
  "icon_clock = [CHR 0xE2, CHR 0x8F, CHR 0xB0]"

definition icon_cross :: string where
  "icon_cross = [CHR 0xE2, CHR 0x9D, CHR 0x8C]"

definition icon_lock :: string where
  "icon_lock = [CHR 0xF0, CHR 0x9F, CHR 0x94, CHR 0x92]"

definition icon_envelope :: string where
  "icon_envelope = [CHR 0xF0, CHR 0x9F, CHR 0x93, CHR 0xA8]"

definition newline :: string where
  "newline = [CHR 0x0A]"

text \<open>
  What the loop of \<^verbatim>\<open>handleReplayCommand\<close> changes: the lines written to the console,
  the two counters, and (for the analysis) the arguments of every call of
  \<^verbatim>\<open>EncryptionService.decryptFromSender\<close>, as pairs of \<^verbatim>\<open>message.cid\<close> and
  \<^verbatim>\<open>message.from\<close>.
\<close>

record replay_state =
  console :: "string list"
  displayedCount :: nat
  failedCount :: nat
  decryptCalls :: "(string \<times> string) list"

text \<open>
  \<^verbatim>\<open>const isExpired = message.expiry && message.expiry > 0 && currentTime > message.expiry\<close>,
  read as a condition.
\<close>

definition isExpired :: "nat \<Rightarrow> message \<Rightarrow> bool" where
  "isExpired currentTime m = (expiry m \<noteq> 0 \<and> expiry m > 0 \<and> currentTime > expiry m)"

definition expired_lines :: "(nat \<Rightarrow> string) \<Rightarrow> nat \<Rightarrow> message \<Rightarrow> string list" where
  "expired_lines toLocaleString index m =
     [newline @ ''['' @ show_nat (index + 1) @ ''] '' @ icon_clock
        @ '' [EXPIRED] Message from '' @ toLocaleString (timestamp m * 1000),
      ''   [Content hidden - message has expired]'']"

definition failed_lines :: "nat \<Rightarrow> message \<Rightarrow> js_error \<Rightarrow> string list" where
  "failed_lines index m decryptError =
     [newline @ ''['' @ show_nat (index + 1) @ ''] '' @ icon_cross
        @ '' Failed to decrypt message from '' @ take 8 (from_addr m) @ ''...'',
      ''   Error: '' @ first_line (error_message decryptError)]"

definition shown_lines ::
  "(nat \<Rightarrow> string) \<Rightarrow> string \<Rightarrow> nat \<Rightarrow> nat \<Rightarrow> message \<Rightarrow> string \<Rightarrow> string list" where
  "shown_lines toLocaleString myAddress currentTime index m decryptedContent =
     [newline @ ''['' @ show_nat (index + 1) @ ''] ''
        @ (if source m = ''session'' then icon_lock else icon_envelope) @ '' ''
        @ (if toLowerCase (from_addr m) = toLowerCase myAddress then ''You'' else ''Them'')
        @ '' ('' @ toLocaleString (timestamp m * 1000) @ ''):'',
      ''   '' @ decryptedContent]
     @ (if expiry m > 0 \<and> expiry m > currentTime
        then [''   '' @ icon_clock @ '' Expires: '' @ toLocaleString (expiry m * 1000)
                @ '' ('' @ show_nat ((expiry m - currentTime) div 3600) @ ''h ''
                @ show_nat (((expiry m - currentTime) mod 3600) div 60) @ ''m left)'']
        else [])"

text \<open>
  The body of the loop for one message. \<open>toLocaleString\<close> renders a date given in
  milliseconds; \<open>decrypt cid from\<close> is the call
  \<^verbatim>\<open>EncryptionService.decryptFromSender(message.cid, wallet.privateKey, message.from)\<close>.
\<close>

definition replay_message ::
  "(nat \<Rightarrow> string) \<Rightarrow> (string \<Rightarrow> string \<Rightarrow> js_error + string) \<Rightarrow> string \<Rightarrow> nat
     \<Rightarrow> nat \<Rightarrow> message \<Rightarrow> replay_state \<Rightarrow> replay_state" where
  "replay_message toLocaleString decrypt myAddress currentTime index m st =
     (if isExpired currentTime m then
        st\<lparr> console := console st @ expired_lines toLocaleString index m \<rparr>
      else
        (case decrypt (cid m) (from_addr m) of
           Inl decryptError \<Rightarrow>
             st\<lparr> console := console st @ failed_lines index m decryptError,
                 failedCount := failedCount st + 1,
                 decryptCalls := decryptCalls st @ [(cid m, from_addr m)] \<rparr>
         | Inr decryptedContent \<Rightarrow>
             st\<lparr> console := console st
                   @ shown_lines toLocaleString myAddress currentTime index m decryptedContent,
                 displayedCount := displayedCount st + 1,
                 decryptCalls := decryptCalls st @ [(cid m, from_addr m)] \<rparr>))"

text \<open>\<^verbatim>\<open>for (const [index, message] of allMessages.entries())\<close>\<close>

fun replay_loop ::
  "(nat \<Rightarrow> string) \<Rightarrow> (string \<Rightarrow> string \<Rightarrow> js_error + string) \<Rightarrow> string \<Rightarrow> nat
     \<Rightarrow> nat \<Rightarrow> message list \<Rightarrow> replay_state \<Rightarrow> replay_state" where
  "replay_loop toLocaleString decrypt myAddress currentTime index [] st = st"
| "replay_loop toLocaleString decrypt myAddress currentTime index (m # ms) st =
     replay_loop toLocaleString decrypt myAddress currentTime (index + 1) ms
       (replay_message toLocaleString decrypt myAddress currentTime index m st)"

definition replay_start :: replay_state where
  "replay_start = \<lparr> console = [], displayedCount = 0, failedCount = 0, decryptCalls = [] \<rparr>"

text \<open>
  Two messages that expired at time 900, sent at time 800 by different senders over
  different channels, and a message without expiry.
\<close>

definition ex_expired_main :: message where
  "ex_expired_main =
     \<lparr> messageId = ''0'', from_addr = ''0xAlice'', to_addr = Some ''0xBob'', cid = ''c1'',
       timestamp = 800, expiry = 900, isMedia = False, messageType = ''text'',
       conversationHash = Some ''h'', source = ''main'', sessionAddress = None,
       blockNumber = None, transactionHash = None \<rparr>"

definition ex_expired_session :: message where
  "ex_expired_session =
     \<lparr> messageId = ''0'', from_addr = ''0xBob'', to_addr = None, cid = ''c2'',
       timestamp = 800, expiry = 900, isMedia = False, messageType = ''text'',
       conversationHash = None, source = ''session'', sessionAddress = Some ''0xs'',
       blockNumber = Some 7, transactionHash = Some ''0xt'' \<rparr>"

definition ex_permanent :: message where
  "ex_permanent = ex_expired_main \<lparr> cid := ''c3'', expiry := 0 \<rparr>"

definition ex_decrypt :: "string \<Rightarrow> string \<Rightarrow> js_error + string" where
  "ex_decrypt c f = Inr (''plain of '' @ c)"

subsection \<open>A small conversation\<close>

text \<open>
  Three records of the persistent store, stored with the timestamps 5, 1 and 3, and two
  session events with the timestamps 2 and 4.
\<close>

definition ex_data :: "nat \<Rightarrow> message_data" where
  "ex_data ts =
     \<lparr> md_from = ''0xa'', md_to = ''0xb'', md_cid = ''c'', md_timestamp = ts,
       md_expiry = 0, md_isMedia = False, md_messageType = ''text'',
       md_conversationHash = ''h'' \<rparr>"

definition ex_getMessage :: "nat \<Rightarrow> js_error + message_data" where
  "ex_getMessage mid =
     (if mid = 0 then Inr (ex_data 5)
      else if mid = 1 then Inr (ex_data 1)
      else if mid = 2 then Inr (ex_data 3)
      else Inl (Error ''missing''))"

definition ex_event :: "nat \<Rightarrow> nat \<Rightarrow> sent_event" where
  "ex_event i ts =
     \<lparr> ev_from = ''0xb'', ev_cid = ''c'', ev_timestamp = ts, ev_expiry = 0,
       ev_messageIndex = i, ev_isMedia = False, ev_messageType = ''text'',
       ev_blockNumber = 7, ev_transactionHash = ''0xt'' \<rparr>"

definition ex_standard :: "message list" where
  "ex_standard = fetch_messages ex_getMessage [0, 1, 2]"

definition ex_session :: "message list" where
  "ex_session = [session_message ''0xs'' (ex_event 0 2), session_message ''0xs'' (ex_event 1 4)]"

text \<open>
  A ledger client that rejects every range of more than 100 blocks and answers the
  smaller ones; the blocks 0 to 99 hold one event.
\<close>

definition ex_query :: query_filter where
  "ex_query a b =
     (if b - a \<ge> 100 then Inl (Error ''query exceeds max block range: too large'')
      else if a = 0 then Inr [ex_event 0 2]
      else Inr [])"

section \<open>Properties\<close>

subsection \<open>Merging the two sources\<close>

lemma fetch_messages_source:
  "map source (fetch_messages g mids) = replicate (length (fetch_messages g mids)) ''main''"
  by (induction mids) (auto simp: main_message_def split: sum.splits)

text \<open>
  C7. The conversation listing is the concatenation of the messages of the persistent
  store and of the session, sorted ascending by creation timestamp with a stable sort:
  the result holds exactly the messages of both sources (each one unchanged, so with
  the source annotation it was built with), its timestamps ascend, and messages with
  equal timestamps keep the order of the concatenation. Every message fetched from the
  store is annotated \<^verbatim>\<open>'main'\<close> and every session event \<^verbatim>\<open>'session'\<close>.
\<close>

theorem allMessages_stable_merge:
  "mset (allMessages std sess) = mset std + mset sess
   \<and> sorted (map timestamp (allMessages std sess))
   \<and> filter (\<lambda>m. timestamp m = t) (allMessages std sess)
       = filter (\<lambda>m. timestamp m = t) (std @ sess)
   \<and> map source (fetch_messages g mids)
       = replicate (length (fetch_messages g mids)) ''main''
   \<and> source (session_message a e) = ''session''"
  by (simp add: allMessages_def sort_by_timestamp_def sort_key_stable
      fetch_messages_source session_message_def)

text \<open>
  The example of the specification: the store holds the timestamps 5, 1, 3 and the
  session 2, 4; the listing has them in the order 1, 2, 3, 4, 5, each message with the
  annotation of the source it came from.
\<close>

theorem allMessages_stable_merge_witness:
  "map timestamp ex_standard = [5, 1, 3] \<and> map timestamp ex_session = [2, 4]
   \<and> mset (allMessages ex_standard ex_session) = mset ex_standard + mset ex_session
   \<and> map timestamp (allMessages ex_standard ex_session) = [1, 2, 3, 4, 5]
   \<and> map source (allMessages ex_standard ex_session)
       = [''main'', ''session'', ''main'', ''session'', ''main'']"
  using allMessages_stable_merge [of ex_standard ex_session]
  by (simp add: allMessages_def sort_by_timestamp_def ex_standard_def ex_session_def
      ex_getMessage_def ex_data_def ex_event_def main_message_def session_message_def)

subsection \<open>The chunked scan of session events\<close>

lemma small_chunks_adds_nothing: "small_chunks q addr a b ms = ms"
proof (induction q addr a b ms rule: small_chunks.induct)
  case (1 q addr a b ms)
  show ?case
    using "1.IH"(1)
    by (subst small_chunks.simps) (simp add: small_query_def filter_in_catch_block_def)
qed

text \<open>A rejected chunk does not end the scan, and what was gathered before it is kept.\<close>

lemma scan_chunks_keeps_gathered: "\<exists>rest. scan_chunks q addr b c ms = ms @ rest"
proof (induction q addr b c ms rule: scan_chunks.induct)
  case (1 q addr b c ms)
  show ?case
  proof (cases "b \<le> c")
    case False
    then show ?thesis by (subst scan_chunks.simps) simp
  next
    case True
    show ?thesis
    proof (cases "q b (min (b + chunkSize - 1) c)")
      case (Inr events)
      from "1.IH"(2) [OF True Inr] True Inr show ?thesis
        by (subst scan_chunks.simps) auto
    next
      case (Inl e)
      from "1.IH"(1) [OF True Inl] True Inl show ?thesis
        by (subst scan_chunks.simps) (auto simp: small_chunks_adds_nothing)
    qed
  qed
qed

text \<open>
  C6. The claim: a chunk rejected as too large is scanned again in sub-chunks of 100
  blocks and the events of those sub-queries are collected. The code: the retry names
  \<^verbatim>\<open>filter\<close>, which is out of scope in the handler, so every sub-chunk throws before
  its query is sent and the retry adds no message, whatever the ledger would answer.
  With a ledger that rejects the range 0 to 499 and would answer the range 0 to 99
  with one event, the scan returns no message.
\<close>

theorem rejected_chunk_events_are_lost:
  "small_chunks q addr a b ms = ms
   \<and> ex_query 0 499 = Inl (Error ''query exceeds max block range: too large'')
   \<and> ex_query 0 99 = Inr [ex_event 0 2]
   \<and> getSessionMessagesWithLimit ex_query (Inr 499) ''0xs'' 0 = []"
  by (simp add: small_chunks_adds_nothing getSessionMessagesWithLimit_def maxBlocksToScan_def
      scan_chunks.simps [of _ _ 0] scan_chunks.simps [of _ _ 500] chunkSize_def ex_query_def
      sort_by_timestamp_def)

subsection \<open>Expired messages in the replay\<close>

lemma replay_message_calls:
  "decryptCalls (replay_message d dec me now i m st)
     = decryptCalls st @ (if isExpired now m then [] else [(cid m, from_addr m)])"
  by (simp add: replay_message_def split: sum.splits)

lemma replay_loop_calls:
  "decryptCalls (replay_loop d dec me now i ms st)
     = decryptCalls st
       @ map (\<lambda>m. (cid m, from_addr m)) (filter (\<lambda>m. \<not> isExpired now m) ms)"
  by (induction ms arbitrary: i st) (simp_all add: replay_message_calls)

text \<open>
  C8, as the code has it. A message whose expiry is not 0 and lies before the current
  time adds two lines to the console and changes nothing else: the first line holds the
  position of the message in the listing and the date of its creation timestamp, the
  second says that the content is hidden. Neither the sender nor the channel is
  written, and the decryption is not called. A message with expiry 0 is never
  expired. Over a whole listing, the decryption is called for exactly the messages
  that are not expired, in order.
\<close>

theorem expired_message_shows_position_and_date_only:
  "(expiry m \<noteq> 0 \<and> expiry m < now \<longrightarrow>
      replay_message d dec me now i m st
        = st\<lparr> console := console st @
             [newline @ ''['' @ show_nat (i + 1) @ ''] '' @ icon_clock
                @ '' [EXPIRED] Message from '' @ d (timestamp m * 1000),
              ''   [Content hidden - message has expired]''] \<rparr>)
   \<and> (expiry m = 0 \<longrightarrow> \<not> isExpired now m)
   \<and> decryptCalls (replay_loop d dec me now i ms st)
       = decryptCalls st
         @ map (\<lambda>m. (cid m, from_addr m)) (filter (\<lambda>m. \<not> isExpired now m) ms)"
  by (simp add: replay_loop_calls) (simp add: replay_message_def isExpired_def expired_lines_def)

text \<open>
  A message that expired at 900, read at 1000: the console gets the position and the
  date, no decryption is called. In a listing of three messages, only the one without
  expiry is decrypted.
\<close>

theorem expired_message_shows_position_and_date_only_witness:
  "expiry ex_expired_main \<noteq> 0 \<and> expiry ex_expired_main < 1000
   \<and> console (replay_message show_nat ex_decrypt ''0xalice'' 1000 0 ex_expired_main replay_start)
      = [newline @ ''[1] '' @ icon_clock @ '' [EXPIRED] Message from 800000'',
         ''   [Content hidden - message has expired]'']
   \<and> decryptCalls
        (replay_message show_nat ex_decrypt ''0xalice'' 1000 0 ex_expired_main replay_start) = []
   \<and> expiry ex_permanent = 0 \<and> \<not> isExpired 1000 ex_permanent
   \<and> decryptCalls (replay_loop show_nat ex_decrypt ''0xalice'' 1000 0
        [ex_expired_main, ex_permanent, ex_expired_session] replay_start)
      = [(''c3'', ''0xAlice'')]"
  using expired_message_shows_position_and_date_only
      [where m = ex_expired_main and now = 1000 and d = show_nat and dec = ex_decrypt
        and me = "''0xalice''" and i = 0 and st = replay_start
        and ms = "[ex_expired_main, ex_permanent, ex_expired_session]"]
    expired_message_shows_position_and_date_only [where m = ex_permanent and now = 1000]
  by (simp add: ex_expired_main_def ex_expired_session_def ex_permanent_def replay_start_def
      show_nat.simps isExpired_def digit_char_def replay_message_def expired_lines_def
      ex_decrypt_def)

text \<open>
  The claim as stated has the sender and the channel among the metadata shown for an
  expired message. Two expired messages of different senders and different channels
  produce the same console lines.
\<close>

theorem expired_render_hides_sender_and_channel:
  "from_addr ex_expired_main \<noteq> from_addr ex_expired_session
   \<and> source ex_expired_main \<noteq> source ex_expired_session
   \<and> expiry ex_expired_main \<noteq> 0 \<and> expiry ex_expired_main < 1000
   \<and> expiry ex_expired_session \<noteq> 0 \<and> expiry ex_expired_session < 1000
   \<and> replay_message show_nat ex_decrypt ''0xalice'' 1000 0 ex_expired_main replay_start
      = replay_message show_nat ex_decrypt ''0xalice'' 1000 0 ex_expired_session replay_start"
  by (simp add: ex_expired_main_def ex_expired_session_def replay_message_def isExpired_def
      expired_lines_def)

subsection \<open>The small implementation satisfies the laws\<close>

lemma str_le_total: "\<not> str_le a b \<Longrightarrow> str_le b a"
  by (induction a b rule: str_le.induct) (auto)

lemma str_le_Nil: "str_le t [] = (t = [])"
  by (cases t) auto

lemma str_le_antisym: "str_le a b \<Longrightarrow> str_le b a \<Longrightarrow> a = b"
  by (induction a b rule: str_le.induct) (auto simp: str_le_Nil)

lemma dec_strs_dots:
  "dec_strs k (replicate j (CHR ''.'') @ CHR '':'' # t) =
     (if k + j \<le> length t
      then map_option ((#) (take (k + j) t)) (dec_strs 0 (drop (k + j) t)) else None)"
  by (induction j arbitrary: k) auto

lemma dec_enc_strs: "dec_strs 0 (enc_strs ss) = Some ss"
  by (induction ss) (auto simp: dec_strs_dots)

lemma model_parse_stringify:
  "model_parse (model_stringify (envelope c n)) = Inr (envelope c n)"
  by (simp add: model_parse_def model_stringify_def envelope_def dec_enc_strs del: enc_strs.simps)

lemma model_key_agreement: "key_agreement_laws model_library"
  unfolding key_agreement_laws_def model_library_def
  by (auto split: if_splits dest: str_le_total str_le_antisym)

lemma model_codec: "codec_laws model_library"
  by (simp add: codec_laws_def model_library_def model_parse_stringify)

lemma codec_laws_envelope: "codec_laws lib \<Longrightarrow> envelope_codec_laws lib"
  by (simp add: codec_laws_def envelope_codec_laws_def)

lemma model_envelope_codec: "envelope_codec_laws model_library"
  by (rule codec_laws_envelope [OF model_codec])

lemma model_aead: "aead_laws model_library"
  by (auto simp: aead_laws_def model_library_def)

lemma model_rejects: "aead_rejects_other_keys model_library"
  by (auto simp: aead_rejects_other_keys_def model_library_def)

text \<open>The lossy implementation keeps every law but that of the text conversion.\<close>

lemma lossy_fields:
  "wallet_publicKey lossy_library = wallet_publicKey model_library"
  "ecdh_setPrivateKey lossy_library = ecdh_setPrivateKey model_library"
  "ecdh_computeSecret lossy_library = ecdh_computeSecret model_library"
  "sha256 lossy_library = sha256 model_library"
  "to_base64 lossy_library = to_base64 model_library"
  "from_base64 lossy_library = from_base64 model_library"
  "aead_encrypt lossy_library = aead_encrypt model_library"
  "aead_decrypt lossy_library = aead_decrypt model_library"
  "JSON_stringify lossy_library = JSON_stringify model_library"
  "JSON_parse lossy_library = JSON_parse model_library"
  by (simp_all add: lossy_library_def)

lemma lossy_library_laws:
  "key_agreement_laws lossy_library \<and> envelope_codec_laws lossy_library
   \<and> aead_laws lossy_library \<and> aead_rejects_other_keys lossy_library"
  using model_key_agreement model_envelope_codec model_aead model_rejects
  unfolding key_agreement_laws_def envelope_codec_laws_def aead_laws_def
    aead_rejects_other_keys_def lossy_fields
  by blast

subsection \<open>Key agreement\<close>

lemma starts_with_take: "starts_with s p = (take (length p) s = p)"
  by (induction s p rule: starts_with.induct) auto

lemma hex_not_0x: "list_all hex_digit s \<Longrightarrow> \<not> starts_with s ''0x''"
  by (cases s; cases "tl s") (auto simp: hex_digit_def)

lemma strip0x_hex: "list_all hex_digit s \<Longrightarrow> strip0x s = s"
  by (simp add: strip0x_def hex_not_0x)

lemma strip0x_04: "strip0x (''04'' @ s) = ''04'' @ s"
  by (simp add: strip0x_def)

lemma strip0x_0x: "strip0x (''0x'' @ s) = s"
  by (simp add: strip0x_def)

lemma public_key_shape:
  assumes "key_agreement_laws lib" "getPublicKeyFromPrivate lib a = Inr pa"
  shows "\<exists>w. wallet_publicKey lib (''0x'' @ strip0x a) = Inr w \<and> w = ''0x04'' @ pa
           \<and> length pa = 128 \<and> list_all hex_digit pa"
proof -
  from assms(2) obtain w where w: "wallet_publicKey lib (''0x'' @ strip0x a) = Inr w" "pa = drop 4 w"
    by (auto simp: getPublicKeyFromPrivate_def split: sum.splits)
  from assms(1) w(1) have "length w = 132" "take 4 w = ''0x04''" "list_all hex_digit (drop 4 w)"
    by (auto simp: key_agreement_laws_def)
  moreover have "w = take 4 w @ drop 4 w" by simp
  ultimately show ?thesis using w by auto
qed

lemma shared_secret_core:
  assumes laws: "key_agreement_laws lib"
    and a: "getPublicKeyFromPrivate lib a = Inr pa"
    and b: "getPublicKeyFromPrivate lib b = Inr pb"
    and qb: "qb \<in> encodings pb"
  shows "\<exists>s. ecdh_computeSecret lib (strip0x a) (''04'' @ pb) = Inr s
           \<and> ecdh_computeSecret lib (strip0x b) (''04'' @ pa) = Inr s
           \<and> generateSharedSecret lib a qb = Inr (sha256 lib s)"
proof -
  from public_key_shape [OF laws a] obtain wa where
    wa: "wallet_publicKey lib (''0x'' @ strip0x a) = Inr wa" "wa = ''0x04'' @ pa"
        "length pa = 128" "list_all hex_digit pa" by blast
  from public_key_shape [OF laws b] obtain wb where
    wb: "wallet_publicKey lib (''0x'' @ strip0x b) = Inr wb" "wb = ''0x04'' @ pb"
        "length pb = 128" "list_all hex_digit pb" by blast
  from laws wa(1) wb(1) have set: "ecdh_setPrivateKey lib (strip0x a) = Inr ()"
    and "\<exists>s. ecdh_computeSecret lib (strip0x a) (drop 2 wb) = Inr s
             \<and> ecdh_computeSecret lib (strip0x b) (drop 2 wa) = Inr s"
    unfolding key_agreement_laws_def by blast+
  then obtain s where s: "ecdh_computeSecret lib (strip0x a) (''04'' @ pb) = Inr s"
      "ecdh_computeSecret lib (strip0x b) (''04'' @ pa) = Inr s"
    using wa(2) wb(2) by auto
  have clean: "strip0x qb = pb \<or> strip0x qb = ''04'' @ pb"
    using qb strip0x_hex [OF wb(4)] strip0x_0x [of pb] strip0x_0x [of "''04'' @ pb"]
      strip0x_04 [of pb]
    by (auto simp: encodings_def)
  have "generateSharedSecret lib a qb = Inr (sha256 lib s)"
    using clean
  proof
    assume "strip0x qb = pb"
    then show ?thesis using set s(1) wb(3) by (simp add: generateSharedSecret_def)
  next
    assume "strip0x qb = ''04'' @ pb"
    then show ?thesis using set s(1) wb(3) by (simp add: generateSharedSecret_def)
  qed
  with s show ?thesis by blast
qed

text \<open>
  C4. For two key pairs that the libraries accept, the key derived from the private key
  of one and the public key of the other is the same on both sides, and the derivation
  succeeds, in whichever of the accepted encodings each public key is given.
\<close>

theorem shared_secret_commutes:
  assumes "key_agreement_laws lib"
    and "getPublicKeyFromPrivate lib a = Inr pa"
    and "getPublicKeyFromPrivate lib b = Inr pb"
    and "qa \<in> encodings pa" and "qb \<in> encodings pb"
  shows "generateSharedSecret lib a qb = generateSharedSecret lib b qa
         \<and> (\<exists>k. generateSharedSecret lib a qb = Inr k)"
  using shared_secret_core [OF assms(1) assms(2) assms(3) assms(5)]
    shared_secret_core [OF assms(1) assms(3) assms(2) assms(4)]
  by auto

text \<open>
  The keys of A and B, the public key of B written with the prefix \<^verbatim>\<open>0x04\<close> and
  that of A as its bare digits.
\<close>

theorem shared_secret_commutes_witness:
  "getPublicKeyFromPrivate model_library ex_keyA = Inr ex_pubA
   \<and> getPublicKeyFromPrivate model_library ex_keyB = Inr ex_pubB
   \<and> generateSharedSecret model_library ex_keyA (''0x04'' @ ex_pubB)
       = generateSharedSecret model_library ex_keyB ex_pubA
   \<and> generateSharedSecret model_library ex_keyB ex_pubA = Inr ex_sharedKey"
proof -
  have a: "getPublicKeyFromPrivate model_library ex_keyA = Inr ex_pubA" by code_simp
  have b: "getPublicKeyFromPrivate model_library ex_keyB = Inr ex_pubB" by code_simp
  have qa: "ex_pubA \<in> encodings ex_pubA" by (simp add: encodings_def)
  have qb: "''0x04'' @ ex_pubB \<in> encodings ex_pubB" by (simp add: encodings_def)
  have "generateSharedSecret model_library ex_keyA (''0x04'' @ ex_pubB)
          = generateSharedSecret model_library ex_keyB ex_pubA"
    using shared_secret_commutes [OF model_key_agreement a b qa qb] by simp
  moreover have "generateSharedSecret model_library ex_keyB ex_pubA = Inr ex_sharedKey"
    by code_simp
  ultimately show ?thesis using a b by simp
qed

subsection \<open>Encryption and decryption\<close>

lemma testing_key_cases:
  "getRecipientPrivateKeyForTesting addr = Inr k \<Longrightarrow> k \<in> snd ` set testingKeys"
  by (auto simp: getRecipientPrivateKeyForTesting_def split: option.splits dest!: find_Some_iff [THEN iffD1])
     (metis nth_mem snd_conv image_eqI)

lemma testing_key_clean:
  "getRecipientPrivateKeyForTesting addr = Inr k \<Longrightarrow> strip0x k = k"
  by (drule testing_key_cases) (auto simp: testingKeys_def strip0x_def)

lemma getPublicKeyFromPrivate_strip:
  "strip0x (strip0x a) = strip0x a \<Longrightarrow>
     getPublicKeyFromPrivate lib (strip0x a) = getPublicKeyFromPrivate lib a"
  by (simp add: getPublicKeyFromPrivate_def)

lemma parse_envelope:
  assumes "envelope_codec_laws lib" "c64 \<noteq> []" "n64 \<noteq> []"
  shows "parse_payload lib (JSON_stringify lib (envelope c64 n64)) = Inr (envelope c64 n64)"
  using assms by (simp add: parse_payload_def envelope_codec_laws_def) (simp add: envelope_def)

lemma decrypt_envelope:
  assumes "envelope_codec_laws lib" "c64 \<noteq> []" "n64 \<noteq> []"
  shows "decryptFromSender lib (JSON_stringify lib (envelope c64 n64)) k addr =
          (case open_payload lib (envelope c64 n64) k addr of
             Inl e \<Rightarrow> undecryptable_sentinel | Inr m \<Rightarrow> m)"
  by (simp add: decryptFromSender_def parse_envelope [OF assms]) (simp add: envelope_def)

lemma not_in_table:
  "\<not> in_testing_table addr \<Longrightarrow>
     getRecipientPrivateKeyForTesting addr
       = Inl (Error (''Testing private key not found for address: '' @ addr))"
  by (auto simp: in_testing_table_def getRecipientPrivateKeyForTesting_def testingKeys_def)


lemma roundtrip_core:
  assumes ka: "key_agreement_laws lib" and co: "envelope_codec_laws lib" and ae: "aead_laws lib"
    and ta: "getRecipientPrivateKeyForTesting addrA = Inr (strip0x a)"
    and tb: "getRecipientPrivateKeyForTesting addrB = Inr (strip0x b)"
    and va: "getPublicKeyFromPrivate lib a = Inr pa"
    and vb: "getPublicKeyFromPrivate lib b = Inr pb"
    and n: "length nonce = 24"
    and rt: "to_string lib (from_string lib m) = Inr m'"
  shows "\<exists>env. encryptForRecipient lib nonce m a addrB = Inr env
           \<and> decryptFromSender lib env b addrA = (if m' = [] then undecryptable_sentinel else m')"
proof -
  have pa': "getPublicKeyFromPrivate lib (strip0x a) = Inr pa"
    using testing_key_clean [OF ta] va by (simp add: getPublicKeyFromPrivate_strip)
  have pb': "getPublicKeyFromPrivate lib (strip0x b) = Inr pb"
    using testing_key_clean [OF tb] vb by (simp add: getPublicKeyFromPrivate_strip)
  from shared_secret_core [OF ka va vb, of pb] obtain s where
    s: "ecdh_computeSecret lib (strip0x b) (''04'' @ pa) = Inr s"
       "generateSharedSecret lib a pb = Inr (sha256 lib s)"
    by (auto simp: encodings_def)
  from shared_secret_core [OF ka vb va, of pa] s(1) have
    kb: "generateSharedSecret lib b pa = Inr (sha256 lib s)"
    by (auto simp: encodings_def)
  define k where "k = sha256 lib s"
  have lk: "length k = 32" using ae by (simp add: k_def aead_laws_def)
  from ae n lk obtain c where c: "aead_encrypt lib (from_string lib m) nonce k = Inr c"
    unfolding aead_laws_def by blast
  with ae have c': "c \<noteq> []" "aead_decrypt lib c nonce k = Inr (from_string lib m)"
    unfolding aead_laws_def by blast+
  define env where "env = JSON_stringify lib (envelope (to_base64 lib c) (to_base64 lib nonce))"
  have enc: "encryptForRecipient lib nonce m a addrB = Inr env"
    using tb pb' s(2) c by (simp add: encryptForRecipient_def k_def env_def)
  have "nonce \<noteq> []" using n by auto
  then have ne: "to_base64 lib c \<noteq> []" "to_base64 lib nonce \<noteq> []"
    using co c'(1) unfolding envelope_codec_laws_def by blast+
  have "open_payload lib (envelope (to_base64 lib c) (to_base64 lib nonce)) b addrA
          = (if m' = [] then Inl (Error ''Decryption resulted in empty message'') else Inr m')"
    using ta pa' kb c'(2) co rt
    by (simp add: open_payload_def k_def envelope_codec_laws_def envelope_def)
  then have "decryptFromSender lib env b addrA = (if m' = [] then undecryptable_sentinel else m')"
    by (simp add: env_def decrypt_envelope [OF co ne])
  with enc show ?thesis by blast
qed



text \<open>
  C1, as the code has it. The round trip is the identity for a non-empty message that
  the conversion to UTF-8 bytes and back reproduces (well-formed Unicode: a text with an
  unpaired surrogate comes back with a replacement character), when both parties are in
  the table of testing keys with the private keys they use: the envelope that A makes
  for the address of B opens, with the key of B and the address of A, to the message.
\<close>

theorem roundtrip_for_testing_addresses:
  assumes "key_agreement_laws lib" and "envelope_codec_laws lib" and "aead_laws lib"
    and "getRecipientPrivateKeyForTesting addrA = Inr (strip0x a)"
    and "getRecipientPrivateKeyForTesting addrB = Inr (strip0x b)"
    and "getPublicKeyFromPrivate lib a = Inr pa"
    and "getPublicKeyFromPrivate lib b = Inr pb"
    and "length nonce = 24" and "m \<noteq> []"
    and "to_string lib (from_string lib m) = Inr m"
  shows "\<exists>env. encryptForRecipient lib nonce m a addrB = Inr env
           \<and> decryptFromSender lib env b addrA = m"
  using roundtrip_core [OF assms(1-8) assms(10)] assms(9) by simp

theorem roundtrip_for_testing_addresses_witness:
  "length ex_nonce = 24 \<and> ''hello'' \<noteq> []
   \<and> to_string model_library (from_string model_library ''hello'') = Inr ''hello''
   \<and> encryptForRecipient model_library ex_nonce ''hello'' ex_keyA ex_addrB
       = Inr (ex_envelope ''hello'')
   \<and> decryptFromSender model_library (ex_envelope ''hello'') ex_keyB ex_addrA = ''hello''"
proof -
  have ta: "getRecipientPrivateKeyForTesting ex_addrA = Inr (strip0x ex_keyA)" by code_simp
  have tb: "getRecipientPrivateKeyForTesting ex_addrB = Inr (strip0x ex_keyB)" by code_simp
  have va: "getPublicKeyFromPrivate model_library ex_keyA = Inr ex_pubA" by code_simp
  have vb: "getPublicKeyFromPrivate model_library ex_keyB = Inr ex_pubB" by code_simp
  have n: "length ex_nonce = 24" by (simp add: ex_nonce_def)
  have m: "''hello'' \<noteq> []" by simp
  have rt: "to_string model_library (from_string model_library ''hello'') = Inr ''hello''"
    by code_simp
  have e: "encryptForRecipient model_library ex_nonce ''hello'' ex_keyA ex_addrB
             = Inr (ex_envelope ''hello'')" by code_simp
  from roundtrip_for_testing_addresses
         [OF model_key_agreement model_envelope_codec model_aead ta tb va vb n m rt] e
  have "decryptFromSender model_library (ex_envelope ''hello'') ex_keyB ex_addrA = ''hello''"
    by auto
  with n rt e show ?thesis by simp
qed

text \<open>
  The claim as stated is for every pair of valid key pairs. A recipient outside the
  table, whatever its keys, gets no envelope: the encryption throws.
\<close>

theorem roundtrip_needs_testing_table:
  "getPublicKeyFromPrivate model_library ex_keyA = Inr ex_pubA
   \<and> getPublicKeyFromPrivate model_library ex_strangerKey = Inr (ex_strangerKey @ ex_strangerKey)
   \<and> encryptForRecipient model_library ex_nonce ''hello'' ex_keyA ex_stranger
       = Inl (Error ''Testing private key not found for address: 0x00000000000000000000000000000000000000aa'')"
  by code_simp

text \<open>
  What the reader gets is the text that the conversion to bytes and back gives. With
  the conversion that replaces a code unit, and every other law in place, the message
  of A reaches B with the replacement in it.
\<close>

lemma roundtrip_returns_converted_text:
  "to_string lossy_library (from_string lossy_library ex_ill_formed) = Inr ''a?b''
   \<and> ex_ill_formed \<noteq> ''a?b''
   \<and> encryptForRecipient lossy_library ex_nonce ex_ill_formed ex_keyA ex_addrB
       = Inr (ex_envelope ''a?b'')
   \<and> decryptFromSender lossy_library (ex_envelope ''a?b'') ex_keyB ex_addrA = ''a?b''"
  by code_simp

text \<open>
  C9. For an address outside the table of testing keys, the encryption throws the
  error of the lookup and produces no envelope, and the decryption of an envelope
  that parses, has its fields and carries the right algorithm tag returns the
  undecryptable sentinel, whatever key the caller holds. The table knows exactly the
  two addresses, compared without regard to case.
\<close>

theorem testing_table_gates_both_directions:
  "(\<not> in_testing_table addr \<longrightarrow>
      encryptForRecipient lib nonce m k addr
        = Inl (Error (''Testing private key not found for address: '' @ addr))
      \<and> (\<forall>p. parse_payload lib env = Inr p
              \<and> get_prop p ''algorithm'' = Inr (Some (JStr ''XChaCha20-Poly1305''))
            \<longrightarrow> decryptFromSender lib env k addr = undecryptable_sentinel))
   \<and> (in_testing_table addr
        \<longleftrightarrow> toLowerCase addr = ''0x4b3462da947df564ea5d7bd23f5515fbeb093d55''
          \<or> toLowerCase addr = ''0xd6ed9d6a26636df02d6a2a51a448cac55795e016'')"
proof -
  have "in_testing_table addr
        \<longleftrightarrow> toLowerCase addr = ''0x4b3462da947df564ea5d7bd23f5515fbeb093d55''
          \<or> toLowerCase addr = ''0xd6ed9d6a26636df02d6a2a51a448cac55795e016''"
    by (simp add: in_testing_table_def testingKeys_def toLowerCase_def lower_char_def)
  moreover have "\<not> in_testing_table addr \<Longrightarrow>
      encryptForRecipient lib nonce m k addr
        = Inl (Error (''Testing private key not found for address: '' @ addr))"
    by (simp add: encryptForRecipient_def not_in_table)
  moreover have "\<not> in_testing_table addr \<Longrightarrow> parse_payload lib env = Inr p
       \<Longrightarrow> get_prop p ''algorithm'' = Inr (Some (JStr ''XChaCha20-Poly1305''))
       \<Longrightarrow> decryptFromSender lib env k addr = undecryptable_sentinel" for p
    by (simp add: decryptFromSender_def open_payload_def not_in_table)
  ultimately show ?thesis by blast
qed

text \<open>
  A party outside the table can encrypt for B, and the envelope is well formed, but B
  cannot read it, and nobody can encrypt for that party.
\<close>

theorem testing_table_gates_both_directions_witness:
  "\<not> in_testing_table ex_stranger
   \<and> encryptForRecipient model_library ex_nonce ''hello'' ex_keyB ex_stranger
       = Inl (Error (''Testing private key not found for address: '' @ ex_stranger))
   \<and> encryptForRecipient model_library ex_nonce ''hello'' ex_strangerKey ex_addrB
       = Inr ex_stranger_envelope
   \<and> decryptFromSender model_library ex_stranger_envelope ex_keyB ex_stranger
       = undecryptable_sentinel"
proof -
  have out: "\<not> in_testing_table ex_stranger" by code_simp
  have e: "encryptForRecipient model_library ex_nonce ''hello'' ex_strangerKey ex_addrB
             = Inr ex_stranger_envelope" by code_simp
  have p: "parse_payload model_library ex_stranger_envelope
             = Inr (envelope (replicate 32 (CHR ''0'') @ ex_nonce @ ''hello'') ex_nonce)"
    by code_simp
  have g: "get_prop (envelope (replicate 32 (CHR ''0'') @ ex_nonce @ ''hello'') ex_nonce)
             ''algorithm'' = Inr (Some (JStr ''XChaCha20-Poly1305''))"
    by code_simp
  from testing_table_gates_both_directions
         [where addr = ex_stranger and lib = model_library and env = ex_stranger_envelope
            and k = ex_keyB and nonce = ex_nonce and m = "''hello''"] out p g
  show ?thesis using e by blast
qed




text \<open>
  C3, as the code has it. The empty message is refused by the callers of the
  encryption: \<^verbatim>\<open>sendCommand\<close> throws before it connects, encrypts, uploads or sends
  anything, and the command line does not dispatch to the send handler. The encryption
  itself has no such check: for parties of the testing table it returns an envelope for
  the empty message, and the decryption reports that envelope as undecryptable.
\<close>

theorem empty_message_rejected_by_send_command:
  "(falsy_text message_opt \<longrightarrow>
      sendCommand lib nonce svc to_opt message_opt expiry_opt session
        = (Inl (Error ''Recipient address and message are required''), [])
      \<and> main_dispatch (argv \<lparr> argv_message := message_opt \<rparr>) \<noteq> HandleSend)
   \<and> (key_agreement_laws lib \<and> codec_laws lib \<and> aead_laws lib
        \<and> getRecipientPrivateKeyForTesting addrA = Inr (strip0x a)
        \<and> getRecipientPrivateKeyForTesting addrB = Inr (strip0x b)
        \<and> getPublicKeyFromPrivate lib a = Inr pa
        \<and> getPublicKeyFromPrivate lib b = Inr pb
        \<and> length nonce = 24
      \<longrightarrow> (\<exists>env. encryptForRecipient lib nonce [] a addrB = Inr env
                \<and> decryptFromSender lib env b addrA = undecryptable_sentinel))"
proof (intro conjI impI)
  assume "falsy_text message_opt"
  then show "sendCommand lib nonce svc to_opt message_opt expiry_opt session
        = (Inl (Error ''Recipient address and message are required''), [])"
    by (auto simp: sendCommand_def falsy_text_def split: option.splits)
next
  assume "falsy_text message_opt"
  then show "main_dispatch (argv \<lparr> argv_message := message_opt \<rparr>) \<noteq> HandleSend"
    by (simp add: main_dispatch_def)
next
  assume "key_agreement_laws lib \<and> codec_laws lib \<and> aead_laws lib
        \<and> getRecipientPrivateKeyForTesting addrA = Inr (strip0x a)
        \<and> getRecipientPrivateKeyForTesting addrB = Inr (strip0x b)
        \<and> getPublicKeyFromPrivate lib a = Inr pa
        \<and> getPublicKeyFromPrivate lib b = Inr pb
        \<and> length nonce = 24"
  then show "\<exists>env. encryptForRecipient lib nonce [] a addrB = Inr env
                \<and> decryptFromSender lib env b addrA = undecryptable_sentinel"
    using roundtrip_core [where lib = lib and addrA = addrA and a = a and addrB = addrB
        and b = b and pa = pa and pb = pb and nonce = nonce and m = "[]" and m' = "[]"]
    by (simp add: codec_laws_envelope) (simp add: codec_laws_def)
qed

theorem empty_message_rejected_by_send_command_witness:
  "falsy_text (Some [])
   \<and> sendCommand model_library ex_nonce ex_services (Some ex_addrB) (Some []) 0 False
       = (Inl (Error ''Recipient address and message are required''), [])
   \<and> main_dispatch ex_argv \<noteq> HandleSend
   \<and> decryptFromSender model_library (ex_envelope []) ex_keyB ex_addrA
       = undecryptable_sentinel"
proof -
  have f: "falsy_text (Some [])" by (simp add: falsy_text_def)
  have ta: "getRecipientPrivateKeyForTesting ex_addrA = Inr (strip0x ex_keyA)" by code_simp
  have tb: "getRecipientPrivateKeyForTesting ex_addrB = Inr (strip0x ex_keyB)" by code_simp
  have va: "getPublicKeyFromPrivate model_library ex_keyA = Inr ex_pubA" by code_simp
  have vb: "getPublicKeyFromPrivate model_library ex_keyB = Inr ex_pubB" by code_simp
  have n: "length ex_nonce = 24" by (simp add: ex_nonce_def)
  have e: "encryptForRecipient model_library ex_nonce [] ex_keyA ex_addrB = Inr (ex_envelope [])"
    by code_simp
  have a: "ex_argv \<lparr> argv_message := Some [] \<rparr> = ex_argv" by (simp add: ex_argv_def)
  note T = empty_message_rejected_by_send_command
             [where message_opt = "Some []" and lib = model_library and nonce = ex_nonce
                and svc = ex_services and to_opt = "Some ex_addrB" and expiry_opt = 0
                and session = False and argv = ex_argv and addrA = ex_addrA and a = ex_keyA
                and addrB = ex_addrB and b = ex_keyB and pa = ex_pubA and pb = ex_pubB]
  from T f a have "sendCommand model_library ex_nonce ex_services (Some ex_addrB) (Some []) 0 False
       = (Inl (Error ''Recipient address and message are required''), [])"
    and "main_dispatch ex_argv \<noteq> HandleSend" by auto
  moreover from T model_key_agreement model_codec model_aead ta tb va vb n e
  have "decryptFromSender model_library (ex_envelope []) ex_keyB ex_addrA
          = undecryptable_sentinel" by auto
  ultimately show ?thesis using f by simp
qed

text \<open>
  The claim as stated has the encryption reject the empty message. With A as sender
  and B as recipient it returns an envelope.
\<close>

theorem encrypt_accepts_empty_message:
  "encryptForRecipient model_library ex_nonce [] ex_keyA ex_addrB = Inr (ex_envelope [])"
  by code_simp

subsection \<open>Sessions\<close>

lemma getSessionBetween_found:
  assumes "sessionContracts L (participantPairToSession L w p) = addr" "addr \<noteq> 0"
    "deployed L addr = Some s"
  shows "getSessionBetween ch L w p
           = Inr (participantPairToSession L w p, addr,
                  sessionActive s \<and> \<not> isSessionExpired s (block_timestamp ch))"
  using assms by (simp add: getSessionBetween_def Let_def)

lemma reuse_young_session:
  assumes "sessionContracts L (participantPairToSession L w p) = addr" "addr \<noteq> 0"
    "deployed L addr = Some s" "int now - int (createdAt s) \<le> ONE_HOUR"
  shows "getOrCreateSession ch now w p (L, c)
           = Inr (\<lparr> contractAddress = addr, existed = True \<rparr>,
                  (L, c(p \<mapsto> \<lparr> entry_contractAddress = addr, entry_participant1 = w,
                                entry_participant2 = p, entry_created = False \<rparr>)))"
  using assms
  by (simp add: getOrCreateSession_def getSessionBetween_found [OF assms(1-3)]
      check_session_age_def)

lemma createSession_result:
  assumes "createSession ch w p (L, c) = Inr (r, (L1, c1))"
  shows "sessionContracts L1 (participantPairToSession L1 w p) = contractAddress r
         \<and> contractAddress r \<noteq> 0 \<and> deployed L1 (contractAddress r) \<noteq> None
         \<and> existed r = False"
  using assms
  by (auto simp: createSession_def getSessionBetween_def Let_def
      split: sum.splits prod.splits if_splits option.splits)

lemma getOrCreateSession_result:
  assumes "getOrCreateSession ch now w p (L, c) = Inr (r, (L1, c1))"
  shows "sessionContracts L1 (participantPairToSession L1 w p) = contractAddress r
         \<and> contractAddress r \<noteq> 0 \<and> deployed L1 (contractAddress r) \<noteq> None"
proof (cases "getSessionBetween ch L w p")
  case (Inl e)
  with assms show ?thesis by (simp add: getOrCreateSession_def)
next
  case (Inr t)
  obtain sid addr act where t: "t = (sid, addr, act)" by (cases t) auto
  show ?thesis
  proof (cases "addr = 0")
    case True
    with assms Inr t have "createSession ch w p (L, c) = Inr (r, (L1, c1))"
      by (simp add: getOrCreateSession_def)
    from createSession_result [OF this] show ?thesis by simp
  next
    case False
    from Inr t False have found: "sessionContracts L (participantPairToSession L w p) = addr"
      "deployed L addr \<noteq> None"
      by (auto simp: getSessionBetween_def Let_def split: if_splits option.splits)
    show ?thesis
    proof (cases "check_session_age ch now w p addr (L, c)")
      case (Inl e)
      with assms Inr t False found show ?thesis
        by (auto simp: getOrCreateSession_def)
    next
      case age: (Inr outcome)
      show ?thesis
      proof (cases outcome)
        case None
        with age assms Inr t False found show ?thesis
          by (auto simp: getOrCreateSession_def)
      next
        case (Some r')
        with age assms Inr t False have r': "r' = (r, (L1, c1))"
          by (simp add: getOrCreateSession_def)
        from age Some r' have "createSession ch w p (L, c) = Inr (r, (L1, c1))"
          by (auto simp: check_session_age_def split: option.splits if_splits sum.splits)
        from createSession_result [OF this] show ?thesis by simp
      qed
    qed
  qed
qed

lemma check_existing_expired:
  assumes "sessionContracts L (participantPairToSession L w p) = old" "old \<noteq> 0"
    "deployed L old = Some s"
    "sessionActive s \<longrightarrow> isSessionExpired s (block_timestamp ch) \<and> activeSessions L > 0"
  shows "\<exists>act. check_existing ch L w p = Inr act"
  using assms by (auto simp: check_existing_def Let_def)

lemma createSession_succeeds:
  assumes guards: "p \<noteq> 0" "p \<noteq> w" "w \<noteq> 0" "length (userSessions L w) < MAX_SESSIONS_PER_USER"
    and chk: "check_existing ch L w p = Inr act"
    and nid: "nid = session_hash ch w p (block_timestamp ch) (block_prevrandao ch) (totalSessions L)"
    and free_id: "sessionContracts L nid = 0"
    and na: "na = create2_address ch nid w p"
    and free_addr: "deployed L na = None" and nz: "na \<noteq> 0"
  shows "\<exists>L' c'. createSession ch w p (L, c)
                   = Inr (\<lparr> contractAddress = na, existed = False \<rparr>, (L', c'))
               \<and> sessionContracts L' (participantPairToSession L' w p) = na"
proof -
  obtain newSession where ns: "ChatSession_constructor w p (block_timestamp ch) = Inr newSession"
    using guards by (auto simp: ChatSession_constructor_def)
  define L' where "L' = L \<lparr> sessionContracts := (sessionContracts L)(nid := na),
      userSessions := (userSessions L)(w := userSessions L w @ [nid],
                                       p := userSessions L p @ [nid]),
      participantPairToSession := (participantPairToSession L)
         (w := (participantPairToSession L w)(p := nid),
          p := (participantPairToSession L p)(w := nid)),
      totalSessions := totalSessions L + 1,
      activeSessions := act + 1,
      deployed := (deployed L)(na \<mapsto> newSession) \<rparr>"
  have cr: "createChatSession ch L w p = Inr (L', na, nid)"
    using guards chk free_id free_addr ns
    by (simp add: createChatSession_def Let_def L'_def flip: nid na)
  have pp: "participantPairToSession L' w p = nid"
    using guards(2) by (simp add: L'_def)
  have sc: "sessionContracts L' nid = na" by (simp add: L'_def)
  have dp: "deployed L' na = Some newSession" by (simp add: L'_def)
  have "getSessionBetween ch L' w p
          = Inr (nid, na, sessionActive newSession
                            \<and> \<not> isSessionExpired newSession (block_timestamp ch))"
    using pp sc dp nz by (simp add: getSessionBetween_def Let_def)
  with cr nz have "createSession ch w p (L, c)
      = Inr (\<lparr> contractAddress = na, existed = False \<rparr>,
             (L', c(p \<mapsto> \<lparr> entry_contractAddress = na, entry_participant1 = w,
                            entry_participant2 = p, entry_created = True \<rparr>)))"
    by (simp add: createSession_def)
  with pp sc show ?thesis by auto
qed

lemma renew_old_session:
  assumes ex: "sessionContracts L (participantPairToSession L w p) = old" "old \<noteq> 0"
    "deployed L old = Some s"
    and age: "int now - int (createdAt s) > ONE_HOUR"
    and guards: "p \<noteq> 0" "p \<noteq> w" "w \<noteq> 0" "length (userSessions L w) < MAX_SESSIONS_PER_USER"
    and over: "sessionActive s \<longrightarrow> isSessionExpired s (block_timestamp ch) \<and> activeSessions L > 0"
    and nid: "nid = session_hash ch w p (block_timestamp ch) (block_prevrandao ch) (totalSessions L)"
    and free_id: "sessionContracts L nid = 0"
    and na: "na = create2_address ch nid w p"
    and free_addr: "deployed L na = None" and nz: "na \<noteq> 0"
  shows "\<exists>L' c'. getOrCreateSession ch now w p (L, c)
                   = Inr (\<lparr> contractAddress = na, existed = False \<rparr>, (L', c'))
               \<and> sessionContracts L' (participantPairToSession L' w p) = na
               \<and> na \<noteq> old"
proof -
  from check_existing_expired [OF ex over] obtain act where
    chk: "check_existing ch L w p = Inr act" by blast
  from createSession_succeeds [OF guards chk nid free_id na free_addr nz, of c]
  obtain L' c' where cs: "createSession ch w p (L, c)
                   = Inr (\<lparr> contractAddress = na, existed = False \<rparr>, (L', c'))"
    and m: "sessionContracts L' (participantPairToSession L' w p) = na" by blast
  have "check_session_age ch now w p old (L, c)
          = Inr (Some (\<lparr> contractAddress = na, existed = False \<rparr>, (L', c')))"
    using ex(3) age cs by (simp add: check_session_age_def)
  then have "getOrCreateSession ch now w p (L, c)
               = Inr (\<lparr> contractAddress = na, existed = False \<rparr>, (L', c'))"
    using ex by (simp add: getOrCreateSession_def getSessionBetween_found [OF ex])
  moreover have "na \<noteq> old" using ex(3) free_addr by auto
  ultimately show ?thesis using m by blast
qed

text \<open>
  C10. When the pair's mapping points to a deployed session that the local clock finds
  at most one hour old, the manager records and returns it with \<open>existed = True\<close>
  and leaves the ledger as it is, whatever the session's \<^verbatim>\<open>sessionActive\<close> flag says:
  the flag that \<^verbatim>\<open>getSessionBetween\<close> reports is not looked at. For a closed session
  that flag is false and \<^verbatim>\<open>sendMessage\<close> of either participant reverts with
  \<^verbatim>\<open>Session closed\<close>.
\<close>

theorem closed_session_is_reused:
  "sessionContracts L (participantPairToSession L w p) = addr \<and> addr \<noteq> 0
     \<and> deployed L addr = Some s \<and> int now - int (createdAt s) \<le> ONE_HOUR
   \<longrightarrow> getOrCreateSession ch now w p (L, c)
         = Inr (\<lparr> contractAddress = addr, existed = True \<rparr>,
                (L, c(p \<mapsto> \<lparr> entry_contractAddress = addr, entry_participant1 = w,
                              entry_participant2 = p, entry_created = False \<rparr>)))
       \<and> (\<not> sessionActive s \<longrightarrow>
             getSessionBetween ch L w p = Inr (participantPairToSession L w p, addr, False)
             \<and> (sender = participant1 s \<or> sender = participant2 s \<longrightarrow>
                  ChatSession_sendMessage s sender t cid_text e media ty
                    = Inl (Revert ''Session closed'')))"
proof (intro impI, elim conjE)
  assume h: "sessionContracts L (participantPairToSession L w p) = addr" "addr \<noteq> 0"
    "deployed L addr = Some s" "int now - int (createdAt s) \<le> ONE_HOUR"
  show "getOrCreateSession ch now w p (L, c)
         = Inr (\<lparr> contractAddress = addr, existed = True \<rparr>,
                (L, c(p \<mapsto> \<lparr> entry_contractAddress = addr, entry_participant1 = w,
                              entry_participant2 = p, entry_created = False \<rparr>)))
       \<and> (\<not> sessionActive s \<longrightarrow>
             getSessionBetween ch L w p = Inr (participantPairToSession L w p, addr, False)
             \<and> (sender = participant1 s \<or> sender = participant2 s \<longrightarrow>
                  ChatSession_sendMessage s sender t cid_text e media ty
                    = Inl (Revert ''Session closed'')))"
    using reuse_young_session [OF h] getSessionBetween_found [OF h(1-3), of ch]
    by (auto simp: ChatSession_sendMessage_def)
qed

text \<open>
  The session of the parties 1 and 2, created at time 1000 and closed by party 2, is
  returned to party 1 at time 1600, and party 1 cannot send on it.
\<close>

theorem closed_session_is_reused_witness:
  "closeSession ex_session1 2 = Inr (ex_session1 \<lparr> sessionActive := False \<rparr>)
   \<and> deployed ex_closed_ledger 1001 = Some (ex_session1 \<lparr> sessionActive := False \<rparr>)
   \<and> getOrCreateSession (ex_chain 1600) 1600 1 2 (ex_closed_ledger, Map.empty)
       = Inr (\<lparr> contractAddress = 1001, existed = True \<rparr>,
              (ex_closed_ledger, [2 \<mapsto> ex_entry 1001 False]))
   \<and> getSessionBetween (ex_chain 1600) ex_closed_ledger 1 2 = Inr (1, 1001, False)
   \<and> ChatSession_sendMessage (ex_session1 \<lparr> sessionActive := False \<rparr>) 1 1600 ''cid'' 0 False
        ''text'' = Inl (Revert ''Session closed'')"
proof -
  have h1: "sessionContracts ex_closed_ledger (participantPairToSession ex_closed_ledger 1 2) = 1001"
    by (simp add: ex_closed_ledger_def ex_ledger1_def)
  have h1': "participantPairToSession ex_closed_ledger 1 2 = 1"
    by (simp add: ex_closed_ledger_def ex_ledger1_def)
  have h2: "(1001::nat) \<noteq> 0" by simp
  have h3: "deployed ex_closed_ledger 1001 = Some (ex_session1 \<lparr> sessionActive := False \<rparr>)"
    by (simp add: ex_closed_ledger_def ex_ledger1_def)
  have h4: "int 1600 - int (createdAt (ex_session1 \<lparr> sessionActive := False \<rparr>)) \<le> ONE_HOUR"
    by (simp add: ex_session1_def ONE_HOUR_def)
  have h5: "\<not> sessionActive (ex_session1 \<lparr> sessionActive := False \<rparr>)" by simp
  have cl: "closeSession ex_session1 2 = Inr (ex_session1 \<lparr> sessionActive := False \<rparr>)"
    by (simp add: closeSession_def ex_session1_def)
  note T = closed_session_is_reused
         [where L = ex_closed_ledger and w = 1 and p = 2 and addr = 1001
            and s = "ex_session1 \<lparr> sessionActive := False \<rparr>" and now = 1600
            and ch = "ex_chain 1600" and c = Map.empty and sender = 1 and t = 1600
            and cid_text = "''cid''" and e = 0 and media = False and ty = "''text''"]
  have h6: "(1::nat) = participant1 (ex_session1 \<lparr> sessionActive := False \<rparr>)"
    by (simp add: ex_session1_def)
  from T h1 h2 h3 h4
  have r: "getOrCreateSession (ex_chain 1600) 1600 1 2 (ex_closed_ledger, Map.empty)
       = Inr (\<lparr> contractAddress = 1001, existed = True \<rparr>,
              (ex_closed_ledger, [2 \<mapsto> ex_entry 1001 False]))"
    unfolding ex_entry_def by blast
  from T h1 h2 h3 h4 h5
  have "getSessionBetween (ex_chain 1600) ex_closed_ledger 1 2
          = Inr (participantPairToSession ex_closed_ledger 1 2, 1001, False)"
    by blast
  then have g: "getSessionBetween (ex_chain 1600) ex_closed_ledger 1 2 = Inr (1, 1001, False)"
    by (simp only: h1')
  from T h1 h2 h3 h4 h5 h6
  have m: "ChatSession_sendMessage (ex_session1 \<lparr> sessionActive := False \<rparr>) 1 1600 ''cid'' 0 False
        ''text'' = Inl (Revert ''Session closed'')"
    by blast
  note r g m
  with cl h3 show ?thesis by simp
qed

text \<open>
  C5, as the code has it. After a call has returned a channel, a call made while the
  local clock finds that channel at most one hour old returns the same address with
  \<open>existed = True\<close> and changes nothing on the ledger. When the pair's channel is
  more than one hour old and the factory accepts a creation (the peer is neither zero
  nor the caller, the caller has fewer than 100 sessions, the old channel is closed or
  expired by block time, with a positive count of active sessions, and neither the new
  identifier nor the new address is taken), the call returns the address of a new
  channel, different from the old one, with \<open>existed = False\<close>, and the pair's
  mapping points to the new channel.
\<close>

theorem session_reused_within_hour_renewed_after:
  "(getOrCreateSession chA nowA w p (L, c) = Inr (rA, (LA, cA))
      \<and> deployed LA (contractAddress rA) = Some sA
      \<and> int nowB - int (createdAt sA) \<le> ONE_HOUR
    \<longrightarrow> getOrCreateSession chB nowB w p (LA, cA)
          = Inr (\<lparr> contractAddress = contractAddress rA, existed = True \<rparr>,
                 (LA, cA(p \<mapsto> \<lparr> entry_contractAddress = contractAddress rA,
                                 entry_participant1 = w, entry_participant2 = p,
                                 entry_created = False \<rparr>))))
   \<and> (sessionContracts L (participantPairToSession L w p) = old \<and> old \<noteq> 0
        \<and> deployed L old = Some s \<and> int now - int (createdAt s) > ONE_HOUR
        \<and> p \<noteq> 0 \<and> p \<noteq> w \<and> w \<noteq> 0
        \<and> length (userSessions L w) < MAX_SESSIONS_PER_USER
        \<and> (sessionActive s \<longrightarrow> isSessionExpired s (block_timestamp ch) \<and> activeSessions L > 0)
        \<and> nid = session_hash ch w p (block_timestamp ch) (block_prevrandao ch) (totalSessions L)
        \<and> sessionContracts L nid = 0
        \<and> na = create2_address ch nid w p
        \<and> deployed L na = None \<and> na \<noteq> 0
      \<longrightarrow> (\<exists>L' c'. getOrCreateSession ch now w p (L, c)
                       = Inr (\<lparr> contractAddress = na, existed = False \<rparr>, (L', c'))
                   \<and> sessionContracts L' (participantPairToSession L' w p) = na
                   \<and> na \<noteq> old))"
proof (intro conjI impI)
  assume h: "getOrCreateSession chA nowA w p (L, c) = Inr (rA, (LA, cA))
      \<and> deployed LA (contractAddress rA) = Some sA
      \<and> int nowB - int (createdAt sA) \<le> ONE_HOUR"
  then have "sessionContracts LA (participantPairToSession LA w p) = contractAddress rA"
    "contractAddress rA \<noteq> 0"
    using getOrCreateSession_result [of chA nowA w p L c rA LA cA] by auto
  with h show "getOrCreateSession chB nowB w p (LA, cA)
          = Inr (\<lparr> contractAddress = contractAddress rA, existed = True \<rparr>,
                 (LA, cA(p \<mapsto> \<lparr> entry_contractAddress = contractAddress rA,
                                 entry_participant1 = w, entry_participant2 = p,
                                 entry_created = False \<rparr>)))"
    using reuse_young_session [of LA w p "contractAddress rA" sA nowB chB cA] by simp
next
  assume "sessionContracts L (participantPairToSession L w p) = old \<and> old \<noteq> 0
        \<and> deployed L old = Some s \<and> int now - int (createdAt s) > ONE_HOUR
        \<and> p \<noteq> 0 \<and> p \<noteq> w \<and> w \<noteq> 0
        \<and> length (userSessions L w) < MAX_SESSIONS_PER_USER
        \<and> (sessionActive s \<longrightarrow> isSessionExpired s (block_timestamp ch) \<and> activeSessions L > 0)
        \<and> nid = session_hash ch w p (block_timestamp ch) (block_prevrandao ch) (totalSessions L)
        \<and> sessionContracts L nid = 0
        \<and> na = create2_address ch nid w p
        \<and> deployed L na = None \<and> na \<noteq> 0"
  then show "\<exists>L' c'. getOrCreateSession ch now w p (L, c)
                       = Inr (\<lparr> contractAddress = na, existed = False \<rparr>, (L', c'))
                   \<and> sessionContracts L' (participantPairToSession L' w p) = na
                   \<and> na \<noteq> old"
    using renew_old_session [of L w p old s now ch nid na c] by blast
qed

text \<open>
  Party 1 asks for a session with party 2 at time 1000 and gets a new channel; ten
  minutes later it gets the same channel; 61 minutes after the creation it gets another
  one.
\<close>

theorem session_reused_within_hour_renewed_after_witness:
  "getOrCreateSession (ex_chain 1000) 1000 1 2 (ex_empty_ledger, Map.empty)
     = Inr (\<lparr> contractAddress = 1001, existed = False \<rparr>,
            (ex_ledger1, [2 \<mapsto> ex_entry 1001 True]))
   \<and> getOrCreateSession (ex_chain 1600) 1600 1 2 (ex_ledger1, [2 \<mapsto> ex_entry 1001 True])
     = Inr (\<lparr> contractAddress = 1001, existed = True \<rparr>,
            (ex_ledger1, [2 \<mapsto> ex_entry 1001 False]))
   \<and> returned (getOrCreateSession (ex_chain 4660) 4660 1 2
                 (ex_ledger1, [2 \<mapsto> ex_entry 1001 False]))
     = Inr \<lparr> contractAddress = 1002, existed = False \<rparr>"
proof -
  have c1: "getOrCreateSession (ex_chain 1000) 1000 1 2 (ex_empty_ledger, Map.empty)
     = Inr (\<lparr> contractAddress = 1001, existed = False \<rparr>,
            (ex_ledger1, [2 \<mapsto> ex_entry 1001 True]))"
    by (simp add: getOrCreateSession_def getSessionBetween_def ex_empty_ledger_def ex_chain_def
        createSession_def createChatSession_def check_existing_def ChatSession_constructor_def
        MAX_SESSIONS_PER_USER_def SESSION_DURATION_def ex_ledger1_def ex_session1_def
        ex_entry_def Let_def)
  have d: "deployed ex_ledger1 1001 = Some ex_session1" by (simp add: ex_ledger1_def)
  have d': "deployed ex_ledger1 (contractAddress \<lparr> contractAddress = 1001, existed = False \<rparr>)
              = Some ex_session1" by (simp add: ex_ledger1_def)
  have a2: "int 1600 - int (createdAt ex_session1) \<le> ONE_HOUR"
    by (simp add: ex_session1_def ONE_HOUR_def)
  note T = session_reused_within_hour_renewed_after
  from T [where chA = "ex_chain 1000" and nowA = 1000 and w = 1 and p = 2
            and L = ex_empty_ledger and c = Map.empty
            and rA = "\<lparr> contractAddress = 1001, existed = False \<rparr>" and LA = ex_ledger1
            and cA = "[2 \<mapsto> ex_entry 1001 True]" and sA = ex_session1 and nowB = 1600
            and chB = "ex_chain 1600"] c1 d' a2
  have "getOrCreateSession (ex_chain 1600) 1600 1 2 (ex_ledger1, [2 \<mapsto> ex_entry 1001 True])
     = Inr (\<lparr> contractAddress = contractAddress \<lparr> contractAddress = 1001, existed = False \<rparr>,
              existed = True \<rparr>,
            (ex_ledger1, [2 \<mapsto> ex_entry 1001 True]
               (2 \<mapsto> \<lparr> entry_contractAddress
                          = contractAddress \<lparr> contractAddress = 1001, existed = False \<rparr>,
                        entry_participant1 = 1, entry_participant2 = 2,
                        entry_created = False \<rparr>)))"
    by blast
  then have c2: "getOrCreateSession (ex_chain 1600) 1600 1 2
                   (ex_ledger1, [2 \<mapsto> ex_entry 1001 True])
     = Inr (\<lparr> contractAddress = 1001, existed = True \<rparr>,
            (ex_ledger1, [2 \<mapsto> ex_entry 1001 False]))"
    by (simp add: ex_entry_def)
  have m: "sessionContracts ex_ledger1 (participantPairToSession ex_ledger1 1 2) = 1001"
    by (simp add: ex_ledger1_def)
  have z: "(1001::nat) \<noteq> 0" and pz: "(2::nat) \<noteq> 0" and pw: "(2::nat) \<noteq> 1"
    and wz: "(1::nat) \<noteq> 0" and nz: "(1002::nat) \<noteq> 0" by simp_all
  have a3: "int 4660 - int (createdAt ex_session1) > ONE_HOUR"
    by (simp add: ex_session1_def ONE_HOUR_def)
  have g: "length (userSessions ex_ledger1 1) < MAX_SESSIONS_PER_USER"
    by (simp add: ex_ledger1_def MAX_SESSIONS_PER_USER_def)
  have ov: "sessionActive ex_session1 \<longrightarrow>
              isSessionExpired ex_session1 (block_timestamp (ex_chain 4660))
              \<and> activeSessions ex_ledger1 > 0"
    by (simp add: ex_session1_def isSessionExpired_def ex_chain_def ex_ledger1_def)
  have nid: "(2::nat) = session_hash (ex_chain 4660) 1 2 (block_timestamp (ex_chain 4660))
                 (block_prevrandao (ex_chain 4660)) (totalSessions ex_ledger1)"
    by (simp add: ex_chain_def ex_ledger1_def)
  have fid: "sessionContracts ex_ledger1 2 = 0" by (simp add: ex_ledger1_def)
  have na: "(1002::nat) = create2_address (ex_chain 4660) 2 1 2" by (simp add: ex_chain_def)
  have fa: "deployed ex_ledger1 1002 = None" by (simp add: ex_ledger1_def)
  from T [where L = ex_ledger1 and w = 1 and p = 2 and old = 1001 and s = ex_session1
            and now = 4660 and ch = "ex_chain 4660" and nid = 2 and na = 1002
            and c = "[2 \<mapsto> ex_entry 1001 False]"]
       m z d a3 pz pw wz g ov nid fid na fa nz
  have "\<exists>L' c'. getOrCreateSession (ex_chain 4660) 4660 1 2
                   (ex_ledger1, [2 \<mapsto> ex_entry 1001 False])
                 = Inr (\<lparr> contractAddress = 1002, existed = False \<rparr>, (L', c'))"
    by blast
  then have c3: "returned (getOrCreateSession (ex_chain 4660) 4660 1 2
                 (ex_ledger1, [2 \<mapsto> ex_entry 1001 False]))
     = Inr \<lparr> contractAddress = 1002, existed = False \<rparr>"
    by (auto simp: returned_def)
  from c1 c2 c3 show ?thesis by simp
qed

text \<open>
  The claim as stated has every call after the hour return a new channel. Party 1
  holds 100 sessions, all created at time 1000, one of them with party 2. At time
  5000 the factory refuses another one, and the call returns the old channel with
  \<open>existed = True\<close>.
\<close>

theorem no_new_session_at_the_limit:
  "length (userSessions ex_full_ledger 1) = 100
   \<and> map_option createdAt (deployed ex_full_ledger 1001) = Some 1000
   \<and> createChatSession (ex_chain 5000) ex_full_ledger 1 2
       = Inl (Revert ''Maximum sessions reached'')
   \<and> returned (getOrCreateSession (ex_chain 5000) 5000 1 2 (ex_full_ledger, Map.empty))
       = Inr \<lparr> contractAddress = 1001, existed = True \<rparr>"
proof -
  have "length (userSessions ex_full_ledger 1) = 100" by code_simp
  moreover have "map_option createdAt (deployed ex_full_ledger 1001) = Some 1000" by code_simp
  moreover have "returned (getOrCreateSession (ex_chain 5000) 5000 1 2
                   (ex_full_ledger, Map.empty))
       = Inr \<lparr> contractAddress = 1001, existed = True \<rparr>" by code_simp
  moreover have "createChatSession (ex_chain 5000) ex_full_ledger 1 2
       = Inl (Revert ''Maximum sessions reached'')"
    by (simp add: createChatSession_def ex_full_ledger_def MAX_SESSIONS_PER_USER_def)
  ultimately show ?thesis by simp
qed

end
